theory Spec2Isabelle
  imports Main "HOL-Library.Char_ord" "HOL-Library.List_Lexorder" "HOL-Library.Multiset"
begin

section \<open>Data-transfer types (main.go, lines 39-141)\<close>

text \<open>
  Go strings and byte slices are byte sequences: \<open>string\<close>. A nil slice and an empty
  slice are both \<open>[]\<close>. Several Go structs share field names (\<open>ID\<close>, \<open>Name\<close>,
  \<open>Wid\<close>), so each field carries its struct's name in front.
\<close>

record Session =
  APIToken :: string

record AccountSettings =
  AccountSettings_WeekStart :: string
  AccountSettings_TimeZone :: string
  AccountSettings_TimeFormat :: string
  AccountSettings_DateFormat :: string

record Workspace =
  Workspace_ID :: string
  Workspace_RoundingMinutes :: int
  Workspace_Name :: string

record Client =
  Client_Wid :: string
  Client_ID :: int
  Client_Name :: string

record Project =
  Project_Wid :: string
  Project_ID :: string
  Project_Name :: string
  Project_Active :: bool
  Project_Billable :: bool

record Task =
  Task_Pid :: string
  Task_ID :: string
  Task_Name :: string

record Tag =
  Tag_Wid :: string
  Tag_ID :: string
  Tag_Name :: string

text \<open>
  A \<open>*time.Time\<close> is \<open>None\<close> (nil) or the RFC 3339 text that
  \<open>Time.UnmarshalJSON\<close> accepted.
\<close>

type_synonym Time = string

record TimeInterval =
  TimeInterval_Duration :: string
  TimeInterval_Stop :: "Time option"
  TimeInterval_Start :: "Time option"

record TimeEntry =
  TimeEntry_Wid :: string
  TimeEntry_ID :: string
  TimeEntry_Pid :: string
  TimeEntry_Tid :: string
  TimeEntry_Description :: string
  TimeEntry_TimeInterval :: TimeInterval
  TimeEntry_Tags :: "string list"
  TimeEntry_Billable :: bool

record TimeEntryRequest =
  TimeEntryRequest_Start :: string
  TimeEntryRequest_Pid :: string
  TimeEntryRequest_Tid :: string
  TimeEntryRequest_Description :: string
  TimeEntryRequest_End :: string
  TimeEntryRequest_Tags :: "string list"
  TimeEntryRequest_Billable :: bool

record Account =
  Account_ID :: string
  Account_Name :: string
  Account_Email :: string
  Account_Workspaces :: "Workspace list"
  Account_Clients :: "Client list"
  Account_Projects :: "Project list"
  Account_Tasks :: "Task list"
  Account_Tags :: "Tag list"
  Account_TimeEntries :: "TimeEntry list"
  Account_Settings :: AccountSettings

text \<open>The zero values of the structs (\<open>Account{}\<close>, \<open>TimeEntry{}\<close>, ...).\<close>

definition zero_AccountSettings :: AccountSettings where
  "zero_AccountSettings =
     \<lparr>AccountSettings_WeekStart = [], AccountSettings_TimeZone = [],
      AccountSettings_TimeFormat = [], AccountSettings_DateFormat = []\<rparr>"

definition zero_Workspace :: Workspace where
  "zero_Workspace = \<lparr>Workspace_ID = [], Workspace_RoundingMinutes = 0, Workspace_Name = []\<rparr>"

definition zero_Client :: Client where
  "zero_Client = \<lparr>Client_Wid = [], Client_ID = 0, Client_Name = []\<rparr>"

definition zero_Project :: Project where
  "zero_Project =
     \<lparr>Project_Wid = [], Project_ID = [], Project_Name = [],
      Project_Active = False, Project_Billable = False\<rparr>"

definition zero_Task :: Task where
  "zero_Task = \<lparr>Task_Pid = [], Task_ID = [], Task_Name = []\<rparr>"

definition zero_Tag :: Tag where
  "zero_Tag = \<lparr>Tag_Wid = [], Tag_ID = [], Tag_Name = []\<rparr>"

definition zero_TimeInterval :: TimeInterval where
  "zero_TimeInterval =
     \<lparr>TimeInterval_Duration = [], TimeInterval_Stop = None, TimeInterval_Start = None\<rparr>"

definition zero_TimeEntry :: TimeEntry where
  "zero_TimeEntry =
     \<lparr>TimeEntry_Wid = [], TimeEntry_ID = [], TimeEntry_Pid = [], TimeEntry_Tid = [],
      TimeEntry_Description = [], TimeEntry_TimeInterval = zero_TimeInterval,
      TimeEntry_Tags = [], TimeEntry_Billable = False\<rparr>"

definition zero_TimeEntryRequest :: TimeEntryRequest where
  "zero_TimeEntryRequest =
     \<lparr>TimeEntryRequest_Start = [], TimeEntryRequest_Pid = [], TimeEntryRequest_Tid = [],
      TimeEntryRequest_Description = [], TimeEntryRequest_End = [],
      TimeEntryRequest_Tags = [], TimeEntryRequest_Billable = False\<rparr>"

definition zero_Account :: Account where
  "zero_Account =
     \<lparr>Account_ID = [], Account_Name = [], Account_Email = [], Account_Workspaces = [],
      Account_Clients = [], Account_Projects = [], Account_Tasks = [], Account_Tags = [],
      Account_TimeEntries = [], Account_Settings = zero_AccountSettings\<rparr>"

text \<open>\<open>func (p *Project) IsActive() bool\<close> (lines 95-97).\<close>

definition IsActive :: "Project \<Rightarrow> bool" where
  "IsActive p = Project_Active p"

text \<open>\<open>func OpenSession(apiToken string) Session\<close> (lines 165-167).\<close>

definition OpenSession :: "string \<Rightarrow> Session" where
  "OpenSession apiToken = \<lparr>APIToken = apiToken\<rparr>"

definition ClockifyAPI :: string where
  "ClockifyAPI = ''https://api.clockify.me/api/v1''"

section \<open>Errors, results and the world outside the library\<close>

text \<open>
  Go errors are values. \<open>ErrorString\<close> is what \<open>fmt.Errorf\<close> returns (its message),
  \<open>URLError\<close> what \<open>http.NewRequest\<close> returns for a URL it cannot parse,
  \<open>SyntaxError\<close> stands for the errors of \<open>encoding/json\<close> on input that is not a
  JSON text (\<open>*json.SyntaxError\<close>, \<open>io.EOF\<close>, \<open>io.ErrUnexpectedEOF\<close>),
  \<open>UnmarshalTypeError\<close> names the JSON kind that did not fit a Go field, and
  \<open>TimeError\<close> is the error of \<open>Time.UnmarshalJSON\<close>. \<open>NetError\<close> and
  \<open>MarshalError\<close> are for the world to return.

  A Go function returning \<open>(T, error)\<close> returns a pair: the error is \<open>None\<close> for nil.
  A function that can dereference nil has an \<open>outcome\<close>: it panics or returns.
\<close>

datatype error =
    ErrorString string
  | URLError string
  | NetError string
  | MarshalError string
  | SyntaxError
  | UnmarshalTypeError string
  | TimeError string

datatype 'a outcome = Panic | Return 'a

record Request =
  Request_Method :: string
  Request_URL :: string
  Request_Header :: "string \<Rightarrow> string list"
  Request_Body :: "string option"

text \<open>
  A response as \<open>request\<close> reads it: the status text (\<open>"404 Not Found"\<close>), the status
  code, and what \<open>ioutil.ReadAll(resp.Body)\<close> gives.
\<close>

record Response =
  Response_Status :: string
  Response_StatusCode :: int
  Response_Body :: "error + string"

text \<open>
  What the library calls and does not define is a parameter of every operation:
  \<^item> \<open>client_Do\<close>: \<open>client.Do(req)\<close>, the network and the server;
  \<^item> \<open>json_Marshal\<close>: \<open>json.Marshal\<close> of a request payload;
  \<^item> \<open>time_Now\<close>: the value of \<open>time.Now().UTC().Format(time.RFC3339)\<close>;
  \<^item> \<open>time_Parse\<close>: whether \<open>Time.UnmarshalJSON\<close> accepts the text between the
    quotes of a JSON string;
  \<^item> \<open>fmt_verb\<close>: the output of \<open>fmt\<close> from a \<open>%\<close> on, when what follows is not one
    of the verbs modelled below.
\<close>

record world =
  client_Do :: "Request \<Rightarrow> error + Response"
  json_Marshal :: "TimeEntryRequest \<Rightarrow> error + string"
  time_Now :: string
  time_Parse :: "string \<Rightarrow> bool"
  fmt_verb :: "string \<Rightarrow> string list \<Rightarrow> string"

section \<open>The standard library as the code uses it\<close>

subsection \<open>\<open>fmt.Sprintf\<close> on string operands\<close>

text \<open>\<open>strings.Join\<close>.\<close>

fun join :: "string \<Rightarrow> string list \<Rightarrow> string" where
  "join sep [] = []"
| "join sep [x] = x"
| "join sep (x # y # ys) = x @ sep @ join sep (y # ys)"

text \<open>
  After the format is used up, \<open>fmt\<close> reports the operands no verb consumed:
  \<open>%!(EXTRA string=a, string=b)\<close>.
\<close>

definition fmt_EXTRA :: "string list \<Rightarrow> string" where
  "fmt_EXTRA args =
     (if args = [] then []
      else ''%!(EXTRA '' @ join '', '' (map (\<lambda>a. ''string='' @ a) args) @ '')'')"

text \<open>
  \<open>fmt.Sprintf(format, args...)\<close> where every operand is a string, as in all calls of
  the library. Literal bytes are copied; \<open>%%\<close> is a percent sign; \<open>%s\<close> and \<open>%v\<close> print
  the next operand as it is, or \<open>%!s(MISSING)\<close> when none is left; a \<open>%\<close> that ends the
  format prints \<open>%!(NOVERB)\<close>. Flags, widths and the other verbs are the world's.
\<close>

fun Sprintf :: "world \<Rightarrow> string \<Rightarrow> string list \<Rightarrow> string" where
  "Sprintf w [] args = fmt_EXTRA args"
| "Sprintf w (c # fs) args =
     (if c \<noteq> CHR ''%'' then c # Sprintf w fs args
      else (case fs of
          [] \<Rightarrow> ''%!(NOVERB)'' @ fmt_EXTRA args
        | v # rest \<Rightarrow>
            if v = CHR ''%'' then CHR ''%'' # Sprintf w rest args
            else if v = CHR ''s'' \<or> v = CHR ''v'' then
              (case args of
                 [] \<Rightarrow> ''%!'' @ [v] @ ''(MISSING)'' @ Sprintf w rest []
               | a # as \<Rightarrow> a @ Sprintf w rest as)
            else fmt_verb w fs args))"

text \<open>\<open>fmt.Errorf(format)\<close>: an error whose message is the formatted text.\<close>

definition Errorf :: "world \<Rightarrow> string \<Rightarrow> string list \<Rightarrow> error" where
  "Errorf w format args = ErrorString (Sprintf w format args)"

subsection \<open>\<open>http.NewRequest\<close>\<close>

definition ishex :: "char \<Rightarrow> bool" where
  "ishex c = (let n = (of_char c :: nat) in
     (48 \<le> n \<and> n \<le> 57) \<or> (97 \<le> n \<and> n \<le> 102) \<or> (65 \<le> n \<and> n \<le> 70))"

text \<open>
  The first loop of \<open>net/url\<close>'s \<open>unescape\<close>: a \<open>%\<close> must be followed by two
  hexadecimal digits.
\<close>

fun bad_escape :: "string \<Rightarrow> bool" where
  "bad_escape [] = False"
| "bad_escape (c # cs) =
     (if c = CHR ''%'' then
        (case cs of
           a # b # rest \<Rightarrow> (if ishex a \<and> ishex b then bad_escape rest else True)
         | _ \<Rightarrow> True)
      else bad_escape cs)"

definition stringContainsCTLByte :: "string \<Rightarrow> bool" where
  "stringContainsCTLByte s = list_ex (\<lambda>c. (of_char c :: nat) < 32 \<or> (of_char c :: nat) = 127) s"

text \<open>
  \<open>http.NewRequest(method, url, body)\<close> parses the URL with \<open>url.Parse\<close> and returns
  \<open>(nil, err)\<close> when that fails. For the URLs of this library, the constant
  \<open>ClockifyAPI\<close> followed by a path that starts with a slash, \<open>url.Parse\<close> fails in
  three cases: a control byte before the first \<open>#\<close>, a malformed percent escape in the
  path (the text before the first \<open>?\<close> and \<open>#\<close>), or one in the fragment (the text
  after the first \<open>#\<close>). The scheme and host of \<open>ClockifyAPI\<close> are well formed and the
  five methods the library uses are valid. The new request has no header. (The check
  for control bytes is in \<open>net/url\<close> since Go 1.12, the one for escapes in every
  version.)
\<close>

definition NewRequest :: "string \<Rightarrow> string \<Rightarrow> string option \<Rightarrow> error + Request" where
  "NewRequest method url body =
     (let u = takeWhile (\<lambda>c. c \<noteq> CHR ''#'') url;
          frag = drop 1 (dropWhile (\<lambda>c. c \<noteq> CHR ''#'') url);
          path = takeWhile (\<lambda>c. c \<noteq> CHR ''?'') u
      in if stringContainsCTLByte u then
           Inl (URLError ''net/url: invalid control character in URL'')
         else if bad_escape path \<or> bad_escape frag then
           Inl (URLError ''invalid URL escape'')
         else Inr \<lparr>Request_Method = method, Request_URL = url,
                   Request_Header = (\<lambda>k. []), Request_Body = body\<rparr>)"

text \<open>\<open>req.Header.Add(key, value)\<close>; both keys the library adds are in canonical form.\<close>

definition Header_Add :: "Request \<Rightarrow> string \<Rightarrow> string \<Rightarrow> Request" where
  "Header_Add req key val =
     req\<lparr>Request_Header := (Request_Header req)(key := Request_Header req key @ [val])\<rparr>"

subsection \<open>\<open>url.Values\<close> and \<open>url.QueryEscape\<close>\<close>

definition unreserved :: "char \<Rightarrow> bool" where
  "unreserved c = (let n = (of_char c :: nat) in
     (48 \<le> n \<and> n \<le> 57) \<or> (65 \<le> n \<and> n \<le> 90) \<or> (97 \<le> n \<and> n \<le> 122) \<or>
     c = CHR ''-'' \<or> c = CHR ''_'' \<or> c = CHR ''.'' \<or> c = CHR ''~'')"

definition upperhex :: "nat \<Rightarrow> char" where
  "upperhex n = ''0123456789ABCDEF'' ! (n mod 16)"

text \<open>
  \<open>url.QueryEscape\<close>: letters, digits and \<open>- _ . ~\<close> stay, a space becomes \<open>+\<close>, any
  other byte becomes \<open>%\<close> and its two upper-case hexadecimal digits.
\<close>

definition escape_byte :: "char \<Rightarrow> string" where
  "escape_byte c =
     (if unreserved c then [c]
      else if c = CHR '' '' then ''+''
      else [CHR ''%'', upperhex (of_char c div 16), upperhex (of_char c mod 16)])"

definition QueryEscape :: "string \<Rightarrow> string" where
  "QueryEscape s = concat (map escape_byte s)"

text \<open>
  \<open>url.Values\<close> is a \<open>map[string][]string\<close>: an association list with one entry
  per key. \<open>Set\<close> replaces the values of a key.
\<close>

type_synonym Values = "(string \<times> string list) list"

fun Values_Set :: "Values \<Rightarrow> string \<Rightarrow> string \<Rightarrow> Values" where
  "Values_Set [] key val = [(key, [val])]"
| "Values_Set ((k, vs) # data) key val =
     (if k = key then (k, [val]) # data else (k, vs) # Values_Set data key val)"

definition Values_Get :: "Values \<Rightarrow> string \<Rightarrow> string list" where
  "Values_Get data key = (case map_of data key of None \<Rightarrow> [] | Some vs \<Rightarrow> vs)"

text \<open>
  \<open>Values.Encode\<close>: the keys sorted (bytewise, as Go compares strings), each value
  written as \<open>key=value\<close>, both escaped, with \<open>&\<close> between the pairs.
\<close>

definition Values_Encode :: "Values \<Rightarrow> string" where
  "Values_Encode data =
     join ''&'' (concat (map (\<lambda>k. map (\<lambda>v. QueryEscape k @ ''='' @ QueryEscape v) (Values_Get data k))
                             (sort (map fst data))))"

subsection \<open>The logger\<close>

text \<open>
  \<open>dlog\<close> is a package variable: a \<open>log.Logger\<close> with its flags and its output. A
  line that reaches \<open>os.Stderr\<close> is recorded with the flags it was printed under, its
  format and its operands; a line sent to \<open>ioutil.Discard\<close> is not recorded.
\<close>

datatype Writer = Stderr | Discard

record Logger =
  Logger_flags :: nat
  Logger_out :: Writer

datatype logarg =
    LString string
  | LTimeEntry TimeEntry
  | LProjects "Project list"

type_synonym logline = "nat \<times> string \<times> logarg list"

text \<open>\<open>log.New(os.Stderr, "[clockify] ", log.LstdFlags)\<close> (line 30).\<close>

definition dlog :: Logger where
  "dlog = \<lparr>Logger_flags = 3, Logger_out = Stderr\<rparr>"

definition Printf :: "Logger \<Rightarrow> string \<Rightarrow> logarg list \<Rightarrow> logline list" where
  "Printf lg format args =
     (case Logger_out lg of
        Stderr \<Rightarrow> [(Logger_flags lg, format, args)]
      | Discard \<Rightarrow> [])"

text \<open>\<open>func DisableLog()\<close> and \<open>func EnableLog()\<close> (lines 768-779).\<close>

definition DisableLog :: "Logger \<Rightarrow> Logger" where
  "DisableLog lg = lg\<lparr>Logger_flags := 0, Logger_out := Discard\<rparr>"

definition EnableLog :: "Logger \<Rightarrow> Logger" where
  "EnableLog lg = (let logFlags = Logger_flags lg in lg\<lparr>Logger_flags := logFlags, Logger_out := Stderr\<rparr>)"

section \<open>\<open>encoding/json\<close> as the code uses it\<close>

subsection \<open>JSON texts\<close>

text \<open>
  A JSON value as the decoder walks it. A number keeps its literal, a string the bytes
  between its quotes with the escapes still in them (\<open>Time.UnmarshalJSON\<close> reads those
  bytes, a string field their unquoted form); the key of a member is unquoted.
\<close>

datatype json =
    JNull
  | JBool bool
  | JNumber string
  | JString string
  | JArray "json list"
  | JObject "(string \<times> json) list"

text \<open>The scanner's white space: space, tab, carriage return, line feed.\<close>

definition isSpace :: "char \<Rightarrow> bool" where
  "isSpace c = (c = CHR '' '' \<or> c = CHR 0x09 \<or> c = CHR 0x0D \<or> c = CHR 0x0A)"

definition skip_ws :: "string \<Rightarrow> string" where
  "skip_ws s = dropWhile isSpace s"

definition isDigit :: "char \<Rightarrow> bool" where
  "isDigit c = (let n = (of_char c :: nat) in 48 \<le> n \<and> n \<le> 57)"

text \<open>
  The scanner's string states, entered after the opening quote: the bytes up to the
  closing quote and the rest of the input. A backslash is followed by one of
  \<open>b f n r t / \ "\<close> or by \<open>u\<close> and four hexadecimal digits; a byte below
  \<open>0x20\<close> is an error.
\<close>

fun scan_string :: "string \<Rightarrow> (string \<times> string) option" where
  "scan_string [] = None"
| "scan_string (c # cs) =
     (if c = CHR 0x22 then Some ([], cs)
      else if c = CHR 0x5C then
        (case cs of
           [] \<Rightarrow> None
         | e # rest \<Rightarrow>
             if e \<in> set ''bfnrt/'' \<or> e = CHR 0x5C \<or> e = CHR 0x22 then
               map_option (\<lambda>(s, r). (c # e # s, r)) (scan_string rest)
             else if e = CHR ''u'' then
               (case rest of
                  h1 # h2 # h3 # h4 # rest' \<Rightarrow>
                    if ishex h1 \<and> ishex h2 \<and> ishex h3 \<and> ishex h4 then
                      map_option (\<lambda>(s, r). (c # e # h1 # h2 # h3 # h4 # s, r)) (scan_string rest')
                    else None
                | _ \<Rightarrow> None)
             else None)
      else if (of_char c :: nat) < 32 then None
      else map_option (\<lambda>(s, r). (c # s, r)) (scan_string cs))"

text \<open>
  The scanner's number states: an optional minus, \<open>0\<close> or a digit sequence without a
  leading zero, an optional fraction, an optional exponent.
\<close>

definition scan_frac :: "string \<Rightarrow> (string \<times> string) option" where
  "scan_frac s =
     (case s of
        [] \<Rightarrow> Some ([], s)
      | c # r \<Rightarrow>
          if c = CHR ''.'' then
            (if takeWhile isDigit r = [] then None
             else Some (c # takeWhile isDigit r, dropWhile isDigit r))
          else Some ([], s))"

definition scan_exp :: "string \<Rightarrow> (string \<times> string) option" where
  "scan_exp s =
     (case s of
        [] \<Rightarrow> Some ([], s)
      | c # r \<Rightarrow>
          if c = CHR ''e'' \<or> c = CHR ''E'' then
            (let sg = (case r of [] \<Rightarrow> [] | x # _ \<Rightarrow> if x = CHR ''+'' \<or> x = CHR ''-'' then [x] else []);
                 r1 = drop (length sg) r
             in if takeWhile isDigit r1 = [] then None
                else Some (c # sg @ takeWhile isDigit r1, dropWhile isDigit r1))
          else Some ([], s))"

definition scan_number :: "string \<Rightarrow> (string \<times> string) option" where
  "scan_number s =
     (let sg = (case s of [] \<Rightarrow> [] | x # _ \<Rightarrow> if x = CHR ''-'' then [x] else []);
          s1 = drop (length sg) s
      in case s1 of
           [] \<Rightarrow> None
         | d # s2 \<Rightarrow>
             if \<not> isDigit d then None
             else
               (let ip = (if d = CHR ''0'' then [d] else d # takeWhile isDigit s2);
                    s3 = (if d = CHR ''0'' then s2 else dropWhile isDigit s2)
                in case scan_frac s3 of
                     None \<Rightarrow> None
                   | Some (fp, s4) \<Rightarrow>
                       (case scan_exp s4 of
                          None \<Rightarrow> None
                        | Some (ep, s5) \<Rightarrow> Some (sg @ ip @ fp @ ep, s5))))"

text \<open>The literals \<open>true\<close>, \<open>false\<close> and \<open>null\<close>.\<close>

definition scan_literal :: "string \<Rightarrow> (json \<times> string) option" where
  "scan_literal s =
     (if take 4 s = ''true'' then Some (JBool True, drop 4 s)
      else if take 5 s = ''false'' then Some (JBool False, drop 5 s)
      else if take 4 s = ''null'' then Some (JNull, drop 4 s)
      else None)"

subsection \<open>\<open>unquote\<close>\<close>

text \<open>
  \<open>unquote\<close> turns the bytes between the quotes into the string: escapes are
  replaced, \<open>\uXXXX\<close> by the UTF-8 encoding of the code point (a surrogate pair by the
  one of the pair, a lone surrogate by U+FFFD), and a byte that does not start a valid
  UTF-8 sequence by U+FFFD.
\<close>

text \<open>\<open>getu4\<close>: the code unit of \<open>\uXXXX\<close> at the head of the text.\<close>

definition hexval :: "char \<Rightarrow> nat" where
  "hexval c = (let n = (of_char c :: nat) in
     if n \<le> 57 then n - 48 else if 97 \<le> n then n - 87 else n - 55)"

definition getu4 :: "string \<Rightarrow> nat option" where
  "getu4 s =
     (case s of
        b # u # h1 # h2 # h3 # h4 # _ \<Rightarrow>
          if b = CHR 0x5C \<and> u = CHR ''u'' \<and> ishex h1 \<and> ishex h2 \<and> ishex h3 \<and> ishex h4
          then Some (((hexval h1 * 16 + hexval h2) * 16 + hexval h3) * 16 + hexval h4)
          else None
      | _ \<Rightarrow> None)"

text \<open>
  \<open>utf8.EncodeRune\<close>, and the length of the valid UTF-8 sequence at the head of a text
  (\<open>0\<close> when \<open>utf8.DecodeRune\<close> gives \<open>RuneError\<close>).
\<close>

definition EncodeRune :: "nat \<Rightarrow> string" where
  "EncodeRune r =
     (if r < 0x80 then [char_of r]
      else if r < 0x800 then [char_of (0xC0 + r div 64), char_of (0x80 + r mod 64)]
      else if (0xD800 \<le> r \<and> r < 0xE000) \<or> 0x10FFFF < r then [CHR 0xEF, CHR 0xBF, CHR 0xBD]
      else if r < 0x10000 then
        [char_of (0xE0 + r div 4096), char_of (0x80 + r div 64 mod 64), char_of (0x80 + r mod 64)]
      else
        [char_of (0xF0 + r div 262144), char_of (0x80 + r div 4096 mod 64),
         char_of (0x80 + r div 64 mod 64), char_of (0x80 + r mod 64)])"

definition between :: "nat \<Rightarrow> char \<Rightarrow> nat \<Rightarrow> bool" where
  "between lo c hi = (lo \<le> (of_char c :: nat) \<and> (of_char c :: nat) \<le> hi)"

definition rune_size :: "string \<Rightarrow> nat" where
  "rune_size s =
     (case s of
        [] \<Rightarrow> 0
      | a # t \<Rightarrow>
          if between 0x00 a 0x7F then 1
          else if between 0xC2 a 0xDF then
            (case t of b # _ \<Rightarrow> if between 0x80 b 0xBF then 2 else 0 | _ \<Rightarrow> 0)
          else if between 0xE0 a 0xEF then
            (case t of
               b # c # _ \<Rightarrow>
                 if between (if a = CHR 0xE0 then 0xA0 else 0x80) b (if a = CHR 0xED then 0x9F else 0xBF)
                    \<and> between 0x80 c 0xBF
                 then 3 else 0
             | _ \<Rightarrow> 0)
          else if between 0xF0 a 0xF4 then
            (case t of
               b # c # d # _ \<Rightarrow>
                 if between (if a = CHR 0xF0 then 0x90 else 0x80) b (if a = CHR 0xF4 then 0x8F else 0xBF)
                    \<and> between 0x80 c 0xBF \<and> between 0x80 d 0xBF
                 then 4 else 0
             | _ \<Rightarrow> 0)
          else 0)"

definition unescape_char :: "char \<Rightarrow> char" where
  "unescape_char e =
     (if e = CHR ''b'' then CHR 0x08 else if e = CHR ''f'' then CHR 0x0C
      else if e = CHR ''n'' then CHR 0x0A else if e = CHR ''r'' then CHR 0x0D
      else if e = CHR ''t'' then CHR 0x09 else e)"

function unquote :: "string \<Rightarrow> string" where
  "unquote [] = []"
| "unquote (c # cs) =
     (if c = CHR 0x5C then
        (case cs of
           [] \<Rightarrow> []
         | e # rest \<Rightarrow>
             if e = CHR ''u'' then
               (case getu4 (c # cs) of
                  None \<Rightarrow> []
                | Some rr \<Rightarrow>
                    if 0xD800 \<le> rr \<and> rr < 0xE000 then
                      (case getu4 (drop 4 rest) of
                         None \<Rightarrow> EncodeRune 0xFFFD @ unquote (drop 4 rest)
                       | Some rr1 \<Rightarrow>
                           if rr < 0xDC00 \<and> 0xDC00 \<le> rr1 \<and> rr1 < 0xE000 then
                             EncodeRune (0x10000 + (rr - 0xD800) * 1024 + (rr1 - 0xDC00))
                             @ unquote (drop 10 rest)
                           else EncodeRune 0xFFFD @ unquote (drop 4 rest))
                    else EncodeRune rr @ unquote (drop 4 rest))
             else unescape_char e # unquote rest)
      else if rune_size (c # cs) = 0 then EncodeRune 0xFFFD @ unquote cs
      else take (rune_size (c # cs)) (c # cs) @ unquote (drop (rune_size (c # cs)) (c # cs)))"
  by pat_completeness auto
termination
  by (relation "measure length") auto

subsection \<open>Reading one value\<close>

lemma scan_string_length: "scan_string s = Some (x, r) \<Longrightarrow> length r < length s"
  by (induction s arbitrary: x r rule: scan_string.induct)
     (fastforce split: if_splits list.splits)+

lemma skip_ws_length: "length (skip_ws s) \<le> length s"
  by (simp add: skip_ws_def length_dropWhile_le)

lemma skip_ws_Cons_length: "skip_ws s = c # r \<Longrightarrow> length r < length s"
  using skip_ws_length [of s] by simp

text \<open>
  \<open>parse_value\<close> reads the first JSON value of the input, after white space, and
  returns it with the input that follows it; \<open>None\<close> is a syntax error or the end of
  the input. \<open>parse_array\<close> and \<open>parse_object\<close> read the elements after \<open>[\<close> and the
  members after \<open>{\<close>. The test on the lengths before the next element is always true
  (a value read is never empty: lemmas \<open>parse_value_length\<close>,
  \<open>parse_array_unguarded\<close> and \<open>parse_object_unguarded\<close>); it is what the
  termination proof uses. The scanner's limit on nesting (10000 levels, since Go 1.15)
  is not modelled.
\<close>

function parse_value :: "string \<Rightarrow> (json \<times> string) option"
  and parse_array :: "string \<Rightarrow> json list \<Rightarrow> (json \<times> string) option"
  and parse_object :: "string \<Rightarrow> (string \<times> json) list \<Rightarrow> (json \<times> string) option"
where
  "parse_value s =
     (case skip_ws s of
        [] \<Rightarrow> None
      | c # r \<Rightarrow>
          if c = CHR ''{'' then
            (case skip_ws r of
               [] \<Rightarrow> None
             | c' # r' \<Rightarrow> if c' = CHR ''}'' then Some (JObject [], r') else parse_object r [])
          else if c = CHR ''['' then
            (case skip_ws r of
               [] \<Rightarrow> None
             | c' # r' \<Rightarrow> if c' = CHR '']'' then Some (JArray [], r') else parse_array r [])
          else if c = CHR 0x22 then map_option (\<lambda>(raw, r'). (JString raw, r')) (scan_string r)
          else if c = CHR ''-'' \<or> isDigit c then
            map_option (\<lambda>(n, r'). (JNumber n, r')) (scan_number (c # r))
          else scan_literal (c # r))"
| "parse_array s acc =
     (case parse_value s of
        None \<Rightarrow> None
      | Some (v, r) \<Rightarrow>
          (case skip_ws r of
             [] \<Rightarrow> None
           | c # r' \<Rightarrow>
               if c = CHR '']'' then Some (JArray (acc @ [v]), r')
               else if c = CHR '','' \<and> length r' < length s then parse_array r' (acc @ [v])
               else None))"
| "parse_object s acc =
     (case skip_ws s of
        [] \<Rightarrow> None
      | q # r \<Rightarrow>
          if q \<noteq> CHR 0x22 then None
          else
            (case scan_string r of
               None \<Rightarrow> None
             | Some (key, r1) \<Rightarrow>
                 (case skip_ws r1 of
                    [] \<Rightarrow> None
                  | c1 # r2 \<Rightarrow>
                      if c1 \<noteq> CHR '':'' then None
                      else
                        (case parse_value r2 of
                           None \<Rightarrow> None
                         | Some (v, r3) \<Rightarrow>
                             (case skip_ws r3 of
                                [] \<Rightarrow> None
                              | c3 # r4 \<Rightarrow>
                                  if c3 = CHR ''}'' then Some (JObject (acc @ [(unquote key, v)]), r4)
                                  else if c3 = CHR '','' \<and> length r4 < length s then
                                    parse_object r4 (acc @ [(unquote key, v)])
                                  else None)))))"
  by pat_completeness auto
termination
  by (relation "measure (\<lambda>x. case x of
          Inl s \<Rightarrow> 2 * length s
        | Inr (Inl (s, acc)) \<Rightarrow> 2 * length s + 1
        | Inr (Inr (s, acc)) \<Rightarrow> 2 * length s + 1)")
     (auto dest!: skip_ws_Cons_length scan_string_length)

declare parse_value.simps [simp del] parse_array.simps [simp del] parse_object.simps [simp del]

subsection \<open>Storing a value into a Go variable\<close>

text \<open>
  The key of a member selects the struct field whose tag is the key, or else the first
  field whose tag equals the key when letter case is folded. Folding maps an ASCII
  letter to its lower case, the Kelvin sign (U+212A) to \<open>k\<close> and the long s (U+017F) to
  \<open>s\<close>; every tag of this library is ASCII.
\<close>

definition toLower :: "char \<Rightarrow> char" where
  "toLower c =
     (case map_of (zip ''ABCDEFGHIJKLMNOPQRSTUVWXYZ'' ''abcdefghijklmnopqrstuvwxyz'') c of
        None \<Rightarrow> c
      | Some l \<Rightarrow> l)"

fun foldName :: "string \<Rightarrow> string" where
  "foldName (a # b # c # cs) =
     (if a = CHR 0xE2 \<and> b = CHR 0x84 \<and> c = CHR 0xAA then CHR ''k'' # foldName cs
      else if a = CHR 0xC5 \<and> b = CHR 0xBF then CHR ''s'' # foldName (c # cs)
      else toLower a # foldName (b # c # cs))"
| "foldName [a, b] = (if a = CHR 0xC5 \<and> b = CHR 0xBF then ''s'' else [toLower a, toLower b])"
| "foldName [a] = [toLower a]"
| "foldName [] = []"

definition find_field :: "(string \<times> 'b) list \<Rightarrow> string \<Rightarrow> 'b option" where
  "find_field flds key =
     (case map_of flds key of
        Some f \<Rightarrow> Some f
      | None \<Rightarrow> map_option snd (find (\<lambda>(tag, f). foldName tag = foldName key) flds))"

text \<open>\<open>strconv.ParseInt(s, 10, 64)\<close> on a JSON number literal; \<open>int\<close> has 64 bits.\<close>

fun digits :: "string \<Rightarrow> int \<Rightarrow> int" where
  "digits [] n = n"
| "digits (c # cs) n = digits cs (10 * n + ((of_char c :: int) - 48))"

definition ParseInt :: "string \<Rightarrow> int option" where
  "ParseInt s =
     (let neg = (take 1 s = ''-''); ds = (if neg then drop 1 s else s) in
      if ds = [] \<or> list_ex (\<lambda>c. \<not> isDigit c) ds then None
      else
        (let n = (if neg then - digits ds 0 else digits ds 0) in
         if - (2 ^ 63) \<le> n \<and> n < 2 ^ 63 then Some n else None))"

text \<open>
  A step of the decoder gives the variable as it is after the step, the error that
  stops the decoding (the error of an \<open>Unmarshaler\<close>) and \<open>d.savedError\<close>: the first
  type mismatch, which does not stop the decoding. JSON \<open>null\<close> leaves a string, a
  number, a boolean and a struct as they are and sets a pointer and a slice to nil.
\<close>

type_synonym 'a store = "'a \<times> error option \<times> error option"

text \<open>\<open>d.saveError\<close> keeps the first error.\<close>

definition saveError :: "error \<Rightarrow> error option \<Rightarrow> error option" where
  "saveError err saved = (case saved of None \<Rightarrow> Some err | Some e \<Rightarrow> Some e)"

definition json_kind :: "json \<Rightarrow> string" where
  "json_kind j =
     (case j of
        JNull \<Rightarrow> ''null'' | JBool b \<Rightarrow> ''bool'' | JNumber n \<Rightarrow> ''number''
      | JString r \<Rightarrow> ''string'' | JArray js \<Rightarrow> ''array'' | JObject kvs \<Rightarrow> ''object'')"

definition mismatch :: "json \<Rightarrow> 'a \<Rightarrow> error option \<Rightarrow> 'a store" where
  "mismatch j v saved = (v, None, saveError (UnmarshalTypeError (json_kind j)) saved)"

definition store_string :: "json \<Rightarrow> string \<Rightarrow> error option \<Rightarrow> string store" where
  "store_string j v saved =
     (case j of
        JString raw \<Rightarrow> (unquote raw, None, saved)
      | JNull \<Rightarrow> (v, None, saved)
      | _ \<Rightarrow> mismatch j v saved)"

definition store_bool :: "json \<Rightarrow> bool \<Rightarrow> error option \<Rightarrow> bool store" where
  "store_bool j v saved =
     (case j of
        JBool b \<Rightarrow> (b, None, saved)
      | JNull \<Rightarrow> (v, None, saved)
      | _ \<Rightarrow> mismatch j v saved)"

definition store_int :: "json \<Rightarrow> int \<Rightarrow> error option \<Rightarrow> int store" where
  "store_int j v saved =
     (case j of
        JNumber n \<Rightarrow>
          (case ParseInt n of
             Some i \<Rightarrow> (i, None, saved)
           | None \<Rightarrow> (v, None, saveError (UnmarshalTypeError (''number '' @ n)) saved))
      | JNull \<Rightarrow> (v, None, saved)
      | _ \<Rightarrow> mismatch j v saved)"

text \<open>
  A \<open>*time.Time\<close> field: \<open>Time.UnmarshalJSON\<close> gets the bytes of the value. The zero
  \<open>time.Time\<close> is \<open>[]\<close>.
\<close>

definition store_Time :: "world \<Rightarrow> json \<Rightarrow> Time option \<Rightarrow> error option \<Rightarrow> Time option store" where
  "store_Time w j v saved =
     (case j of
        JNull \<Rightarrow> (None, None, saved)
      | JString raw \<Rightarrow>
          if time_Parse w raw then (Some raw, None, saved)
          else (Some [], Some (TimeError raw), saved)
      | _ \<Rightarrow>
          (case v of None \<Rightarrow> Some [] | Some t \<Rightarrow> Some t,
           Some (TimeError ''Time.UnmarshalJSON: input is not a JSON string''), saved))"

text \<open>
  A struct is decoded member by member into the fields it already has; a slice element
  by element, into the element it already has at that index or into a zero element.
\<close>

definition struct_field ::
  "('a \<Rightarrow> 'b) \<Rightarrow> (('b \<Rightarrow> 'b) \<Rightarrow> 'a \<Rightarrow> 'a) \<Rightarrow> (json \<Rightarrow> 'b \<Rightarrow> error option \<Rightarrow> 'b store)
     \<Rightarrow> json \<Rightarrow> 'a \<Rightarrow> error option \<Rightarrow> 'a store"
where
  "struct_field sel upd st j v saved =
     (case st j (sel v) saved of (x, hard, saved') \<Rightarrow> (upd (\<lambda>old. x) v, hard, saved'))"

fun decode_members ::
  "(string \<times> (json \<Rightarrow> 'a \<Rightarrow> error option \<Rightarrow> 'a store)) list \<Rightarrow> (string \<times> json) list
     \<Rightarrow> 'a \<Rightarrow> error option \<Rightarrow> 'a store"
where
  "decode_members flds [] v saved = (v, None, saved)"
| "decode_members flds ((key, j) # kvs) v saved =
     (case find_field flds key of
        None \<Rightarrow> decode_members flds kvs v saved
      | Some st \<Rightarrow>
          (case st j v saved of
             (v', hard, saved') \<Rightarrow>
               if hard = None then decode_members flds kvs v' saved' else (v', hard, saved')))"

definition decode_struct ::
  "(string \<times> (json \<Rightarrow> 'a \<Rightarrow> error option \<Rightarrow> 'a store)) list
     \<Rightarrow> json \<Rightarrow> 'a \<Rightarrow> error option \<Rightarrow> 'a store"
where
  "decode_struct flds j v saved =
     (case j of
        JObject kvs \<Rightarrow> decode_members flds kvs v saved
      | JNull \<Rightarrow> (v, None, saved)
      | _ \<Rightarrow> mismatch j v saved)"

fun decode_elems ::
  "(json \<Rightarrow> 'a \<Rightarrow> error option \<Rightarrow> 'a store) \<Rightarrow> 'a \<Rightarrow> json list \<Rightarrow> 'a list \<Rightarrow> error option
     \<Rightarrow> 'a list store"
where
  "decode_elems st z [] olds saved = ([], None, saved)"
| "decode_elems st z (j # js) olds saved =
     (case st j (case olds of [] \<Rightarrow> z | x # xs \<Rightarrow> x) saved of
        (x, hard, saved') \<Rightarrow>
          if hard = None then
            (case decode_elems st z js (tl olds) saved' of
               (xs, hard', saved'') \<Rightarrow> (x # xs, hard', saved''))
          else (x # tl olds, hard, saved'))"

definition decode_slice ::
  "(json \<Rightarrow> 'a \<Rightarrow> error option \<Rightarrow> 'a store) \<Rightarrow> 'a \<Rightarrow> json \<Rightarrow> 'a list \<Rightarrow> error option
     \<Rightarrow> 'a list store"
where
  "decode_slice st z j v saved =
     (case j of
        JArray js \<Rightarrow> decode_elems st z js v saved
      | JNull \<Rightarrow> ([], None, saved)
      | _ \<Rightarrow> mismatch j v saved)"

text \<open>The fields of each struct with their \<open>json\<close> tags (lines 45-130).\<close>

definition AccountSettings_fields ::
  "(string \<times> (json \<Rightarrow> AccountSettings \<Rightarrow> error option \<Rightarrow> AccountSettings store)) list"
where
  "AccountSettings_fields =
     [(''weekStart'', struct_field AccountSettings_WeekStart AccountSettings_WeekStart_update store_string),
      (''timeZone'', struct_field AccountSettings_TimeZone AccountSettings_TimeZone_update store_string),
      (''timeFormat'', struct_field AccountSettings_TimeFormat AccountSettings_TimeFormat_update store_string),
      (''dateFormat'', struct_field AccountSettings_DateFormat AccountSettings_DateFormat_update store_string)]"

definition Workspace_fields ::
  "(string \<times> (json \<Rightarrow> Workspace \<Rightarrow> error option \<Rightarrow> Workspace store)) list"
where
  "Workspace_fields =
     [(''id'', struct_field Workspace_ID Workspace_ID_update store_string),
      (''rounding_minutes'', struct_field Workspace_RoundingMinutes Workspace_RoundingMinutes_update store_int),
      (''name'', struct_field Workspace_Name Workspace_Name_update store_string)]"

definition Client_fields ::
  "(string \<times> (json \<Rightarrow> Client \<Rightarrow> error option \<Rightarrow> Client store)) list"
where
  "Client_fields =
     [(''workspaceId'', struct_field Client_Wid Client_Wid_update store_string),
      (''id'', struct_field Client_ID Client_ID_update store_int),
      (''name'', struct_field Client_Name Client_Name_update store_string)]"

definition Project_fields ::
  "(string \<times> (json \<Rightarrow> Project \<Rightarrow> error option \<Rightarrow> Project store)) list"
where
  "Project_fields =
     [(''workspaceId'', struct_field Project_Wid Project_Wid_update store_string),
      (''id'', struct_field Project_ID Project_ID_update store_string),
      (''name'', struct_field Project_Name Project_Name_update store_string),
      (''archived'', struct_field Project_Active Project_Active_update store_bool),
      (''billable'', struct_field Project_Billable Project_Billable_update store_bool)]"

definition Task_fields ::
  "(string \<times> (json \<Rightarrow> Task \<Rightarrow> error option \<Rightarrow> Task store)) list"
where
  "Task_fields =
     [(''projectId'', struct_field Task_Pid Task_Pid_update store_string),
      (''id'', struct_field Task_ID Task_ID_update store_string),
      (''name'', struct_field Task_Name Task_Name_update store_string)]"

definition Tag_fields ::
  "(string \<times> (json \<Rightarrow> Tag \<Rightarrow> error option \<Rightarrow> Tag store)) list"
where
  "Tag_fields =
     [(''workspaceId'', struct_field Tag_Wid Tag_Wid_update store_string),
      (''id'', struct_field Tag_ID Tag_ID_update store_string),
      (''name'', struct_field Tag_Name Tag_Name_update store_string)]"

definition TimeInterval_fields ::
  "world \<Rightarrow> (string \<times> (json \<Rightarrow> TimeInterval \<Rightarrow> error option \<Rightarrow> TimeInterval store)) list"
where
  "TimeInterval_fields w =
     [(''duration'', struct_field TimeInterval_Duration TimeInterval_Duration_update store_string),
      (''end'', struct_field TimeInterval_Stop TimeInterval_Stop_update (store_Time w)),
      (''start'', struct_field TimeInterval_Start TimeInterval_Start_update (store_Time w))]"

definition TimeEntry_fields ::
  "world \<Rightarrow> (string \<times> (json \<Rightarrow> TimeEntry \<Rightarrow> error option \<Rightarrow> TimeEntry store)) list"
where
  "TimeEntry_fields w =
     [(''workspaceId'', struct_field TimeEntry_Wid TimeEntry_Wid_update store_string),
      (''id'', struct_field TimeEntry_ID TimeEntry_ID_update store_string),
      (''pid'', struct_field TimeEntry_Pid TimeEntry_Pid_update store_string),
      (''taskId'', struct_field TimeEntry_Tid TimeEntry_Tid_update store_string),
      (''description'', struct_field TimeEntry_Description TimeEntry_Description_update store_string),
      (''timeInterval'', struct_field TimeEntry_TimeInterval TimeEntry_TimeInterval_update
          (decode_struct (TimeInterval_fields w))),
      (''tagIds'', struct_field TimeEntry_Tags TimeEntry_Tags_update (decode_slice store_string [])),
      (''billable'', struct_field TimeEntry_Billable TimeEntry_Billable_update store_bool)]"

definition Account_fields ::
  "world \<Rightarrow> (string \<times> (json \<Rightarrow> Account \<Rightarrow> error option \<Rightarrow> Account store)) list"
where
  "Account_fields w =
     [(''id'', struct_field Account_ID Account_ID_update store_string),
      (''name'', struct_field Account_Name Account_Name_update store_string),
      (''email'', struct_field Account_Email Account_Email_update store_string),
      (''workspaces'', struct_field Account_Workspaces Account_Workspaces_update
          (decode_slice (decode_struct Workspace_fields) zero_Workspace)),
      (''clients'', struct_field Account_Clients Account_Clients_update
          (decode_slice (decode_struct Client_fields) zero_Client)),
      (''projects'', struct_field Account_Projects Account_Projects_update
          (decode_slice (decode_struct Project_fields) zero_Project)),
      (''tasks'', struct_field Account_Tasks Account_Tasks_update
          (decode_slice (decode_struct Task_fields) zero_Task)),
      (''tags'', struct_field Account_Tags Account_Tags_update
          (decode_slice (decode_struct Tag_fields) zero_Tag)),
      (''time_entries'', struct_field Account_TimeEntries Account_TimeEntries_update
          (decode_slice (decode_struct (TimeEntry_fields w)) zero_TimeEntry)),
      (''settings'', struct_field Account_Settings Account_Settings_update
          (decode_struct AccountSettings_fields))]"

text \<open>
  \<open>json.Unmarshal(data, &v)\<close> checks that the whole input is one JSON text before it
  stores anything. \<open>json.NewDecoder(bytes.NewReader(data)).Decode(&v)\<close> reads the first
  value of the input and stores it; it does not look at what follows the value.
\<close>

text \<open>\<open>d.unmarshal\<close> returns the error that stopped it, or else the saved one.\<close>

definition unmarshal :: "'a store \<Rightarrow> 'a \<times> error option" where
  "unmarshal r = (case r of (v, hard, saved) \<Rightarrow> (v, case hard of Some e \<Rightarrow> Some e | None \<Rightarrow> saved))"

definition checkValid :: "string \<Rightarrow> bool" where
  "checkValid data =
     (case parse_value data of
        None \<Rightarrow> False
      | Some (j, rest) \<Rightarrow> skip_ws rest = [])"

definition json_Unmarshal ::
  "(json \<Rightarrow> 'a \<Rightarrow> error option \<Rightarrow> 'a store) \<Rightarrow> string \<Rightarrow> 'a \<Rightarrow> 'a \<times> error option"
where
  "json_Unmarshal st data v =
     (if checkValid data then
        (case parse_value data of
           None \<Rightarrow> (v, Some SyntaxError)
         | Some (j, rest) \<Rightarrow> unmarshal (st j v None))
      else (v, Some SyntaxError))"

definition Decoder_Decode ::
  "(json \<Rightarrow> 'a \<Rightarrow> error option \<Rightarrow> 'a store) \<Rightarrow> string \<Rightarrow> 'a \<Rightarrow> 'a \<times> error option"
where
  "Decoder_Decode st data v =
     (case parse_value data of
        None \<Rightarrow> (v, Some SyntaxError)
      | Some (j, rest) \<Rightarrow> unmarshal (st j v None))"

section \<open>Transport helpers (main.go, lines 574-669)\<close>

subsection \<open>\<open>request\<close>\<close>

text \<open>
  \<open>request\<close>, lines 577-581: the headers. The code reads \<open>req.Header\<close> without looking
  at the error of \<open>http.NewRequest\<close>; \<open>request\<close> below gives the nil request its panic.
\<close>

definition setHeaders :: "Session \<Rightarrow> Request \<Rightarrow> Request" where
  "setHeaders session req =
     (let req = (if APIToken session \<noteq> [] then Header_Add req ''X-Api-Key'' (APIToken session)
                 else req)
      in Header_Add req ''Content-Type'' ''application/json'')"

text \<open>
  \<open>request\<close>, lines 583-598: the call, the body read whole, and the status check. The
  status text is the format string of \<open>fmt.Errorf\<close>.
\<close>

definition roundTrip :: "world \<Rightarrow> Request \<Rightarrow> string \<times> error option" where
  "roundTrip w req =
     (case client_Do w req of
        Inl err \<Rightarrow> ([], Some err)
      | Inr resp \<Rightarrow>
          (case Response_Body resp of
             Inl err \<Rightarrow> ([], Some err)
           | Inr content \<Rightarrow>
               if Response_StatusCode resp < 200 \<or> Response_StatusCode resp \<ge> 400
               then (content, Some (Errorf w (Response_Status resp) []))
               else (content, None)))"

text \<open>\<open>func (session *Session) request\<close> (lines 574-599).\<close>

definition request ::
  "world \<Rightarrow> Session \<Rightarrow> string \<Rightarrow> string \<Rightarrow> string option \<Rightarrow> (string \<times> error option) outcome"
where
  "request w session method requestURL body =
     (case NewRequest method requestURL body of
        Inl err \<Rightarrow> Panic
      | Inr req \<Rightarrow> Return (roundTrip w (setHeaders session req)))"

subsection \<open>Results with their log lines\<close>

text \<open>
  An operation returns its result and the lines it wrote to standard error. \<open>andThen\<close>
  runs the rest of a function body after a call that may have panicked.
\<close>

type_synonym 'a logged = "'a \<times> logline list"

definition andThen :: "'a outcome logged \<Rightarrow> ('a \<Rightarrow> 'b outcome logged) \<Rightarrow> 'b outcome logged" where
  "andThen m f =
     (case m of
        (Panic, l1) \<Rightarrow> (Panic, l1)
      | (Return x, l1) \<Rightarrow> (case f x of (r, l2) \<Rightarrow> (r, l1 @ l2)))"

subsection \<open>The verbs (lines 601-669)\<close>

text \<open>
  \<open>get\<close>, lines 602-610: the URL. A Go map is given as the list of its entries in the
  order the \<open>range\<close> loop visits them, \<open>None\<close> for the nil map.
\<close>

definition get_requestURL :: "string \<Rightarrow> string \<Rightarrow> (string \<times> string) list option \<Rightarrow> string" where
  "get_requestURL requestURL path params =
     (let requestURL = requestURL @ path in
      case params of
        None \<Rightarrow> requestURL
      | Some kvs \<Rightarrow>
          (let data = foldl (\<lambda>data (key, val). Values_Set data key val) [] kvs
           in requestURL @ ''?'' @ Values_Encode data))"

definition get ::
  "world \<Rightarrow> Logger \<Rightarrow> Session \<Rightarrow> string \<Rightarrow> string \<Rightarrow> (string \<times> string) list option
     \<Rightarrow> (string \<times> error option) outcome logged"
where
  "get w lg session requestURL path params =
     (let requestURL = get_requestURL requestURL path params in
      (request w session ''GET'' requestURL None,
       Printf lg ''GETing from URL: %s'' [LString requestURL]))"

text \<open>
  \<open>post\<close>, \<open>put\<close> and \<open>patch\<close> take an \<open>interface{}\<close>; the library passes a
  \<open>TimeEntryRequest\<close>, and \<open>None\<close> is the nil interface.
\<close>

definition post ::
  "world \<Rightarrow> Logger \<Rightarrow> Session \<Rightarrow> string \<Rightarrow> string \<Rightarrow> TimeEntryRequest option
     \<Rightarrow> (string \<times> error option) outcome logged"
where
  "post w lg session requestURL path data =
     (let requestURL = requestURL @ path in
      case (case data of None \<Rightarrow> Inr [] | Some d \<Rightarrow> json_Marshal w d) of
        Inl err \<Rightarrow> (Return ([], Some err), [])
      | Inr body \<Rightarrow>
          (request w session ''POST'' requestURL (Some body),
           Printf lg ''POSTing to URL: %s'' [LString requestURL]
           @ Printf lg ''data: %s'' [LString body]))"

definition put ::
  "world \<Rightarrow> Logger \<Rightarrow> Session \<Rightarrow> string \<Rightarrow> string \<Rightarrow> TimeEntryRequest option
     \<Rightarrow> (string \<times> error option) outcome logged"
where
  "put w lg session requestURL path data =
     (let requestURL = requestURL @ path in
      case (case data of None \<Rightarrow> Inr [] | Some d \<Rightarrow> json_Marshal w d) of
        Inl err \<Rightarrow> (Return ([], Some err), [])
      | Inr body \<Rightarrow>
          (request w session ''PUT'' requestURL (Some body),
           Printf lg ''PUTing to URL %s: %s'' [LString requestURL, LString body]))"

definition patch ::
  "world \<Rightarrow> Logger \<Rightarrow> Session \<Rightarrow> string \<Rightarrow> string \<Rightarrow> TimeEntryRequest option
     \<Rightarrow> (string \<times> error option) outcome logged"
where
  "patch w lg session requestURL path data =
     (let requestURL = requestURL @ path in
      case (case data of None \<Rightarrow> Inr [] | Some d \<Rightarrow> json_Marshal w d) of
        Inl err \<Rightarrow> (Return ([], Some err), [])
      | Inr body \<Rightarrow>
          (request w session ''PATCH'' requestURL (Some body),
           Printf lg ''PATCHing to URL %s: %s'' [LString requestURL, LString body]))"

definition delete ::
  "world \<Rightarrow> Logger \<Rightarrow> Session \<Rightarrow> string \<Rightarrow> string \<Rightarrow> (string \<times> error option) outcome logged"
where
  "delete w lg session requestURL path =
     (let requestURL = requestURL @ path in
      (request w session ''DELETE'' requestURL None,
       Printf lg ''DELETINGing URL: %s'' [LString requestURL]))"

section \<open>Resource operations (main.go, lines 169-296 and 680-766)\<close>

text \<open>\<open>func decodeAccount(data []byte, account *Account) error\<close> (lines 680-687).\<close>

definition decodeAccount :: "world \<Rightarrow> string \<Rightarrow> Account \<Rightarrow> Account \<times> error option" where
  "decodeAccount w data account = Decoder_Decode (decode_struct (Account_fields w)) data account"

text \<open>\<open>func requestTimeEntry(data []byte, err error) (TimeEntry, error)\<close> (lines 752-766).\<close>

definition requestTimeEntry ::
  "world \<Rightarrow> Logger \<Rightarrow> string \<times> error option \<Rightarrow> (TimeEntry \<times> error option) logged"
where
  "requestTimeEntry w lg r =
     (case r of
        (data, Some err) \<Rightarrow> ((zero_TimeEntry, Some err), [])
      | (data, None) \<Rightarrow>
          (case json_Unmarshal (decode_struct (TimeEntry_fields w)) data zero_TimeEntry of
             (entry, err) \<Rightarrow>
               (if err = None then (entry, None) else (zero_TimeEntry, err),
                Printf lg ''Unmarshaled '%s' into %#v\<newline>'' [LString data, LTimeEntry entry])))"

text \<open>\<open>func (session *Session) GetAccount() (Account, error)\<close> (lines 171-180).\<close>

definition GetAccount :: "world \<Rightarrow> Logger \<Rightarrow> Session \<Rightarrow> (Account \<times> error option) outcome logged" where
  "GetAccount w lg session =
     andThen (get w lg session ClockifyAPI ''/user'' None)
       (\<lambda>r. case r of
          (data, Some err) \<Rightarrow> (Return (zero_Account, Some err), [])
        | (data, None) \<Rightarrow> (Return (decodeAccount w data zero_Account), []))"

text \<open>\<open>StartTimeEntry\<close> (lines 183-187).\<close>

definition StartTimeEntry ::
  "world \<Rightarrow> Logger \<Rightarrow> Session \<Rightarrow> string \<Rightarrow> TimeEntryRequest
     \<Rightarrow> (TimeEntry \<times> error option) outcome logged"
where
  "StartTimeEntry w lg session workspaceID timeEntryRequest =
     (let path = Sprintf w ''/workspaces/%s/time-entries'' [workspaceID] in
      andThen (post w lg session ClockifyAPI path (Some timeEntryRequest))
        (\<lambda>r. case requestTimeEntry w lg r of (res, l) \<Rightarrow> (Return res, l)))"

text \<open>\<open>GetTimeEntry\<close> (lines 190-198).\<close>

definition GetTimeEntry ::
  "world \<Rightarrow> Logger \<Rightarrow> Session \<Rightarrow> string \<Rightarrow> string \<Rightarrow> (TimeEntry \<times> error option) outcome logged"
where
  "GetTimeEntry w lg session workspaceID timeEntryID =
     (let path = Sprintf w ''/workspaces/%s/time-entries/%s'' [workspaceID, timeEntryID] in
      andThen (get w lg session ClockifyAPI path None)
        (\<lambda>r. case r of
           (data, Some err) \<Rightarrow> (Return (zero_TimeEntry, Some err), [])
         | (data, None) \<Rightarrow>
             (case requestTimeEntry w lg (data, None) of (res, l) \<Rightarrow> (Return res, l))))"

text \<open>\<open>DeleteTimeEntry\<close> (lines 201-205).\<close>

definition DeleteTimeEntry ::
  "world \<Rightarrow> Logger \<Rightarrow> Session \<Rightarrow> string \<Rightarrow> string \<Rightarrow> (string \<times> error option) outcome logged"
where
  "DeleteTimeEntry w lg session workspaceID timeEntryID =
     (let l0 = Printf lg ''Deleting time entry %v'' [LString timeEntryID];
          path = Sprintf w ''/workspaces/%s/time-entries/%s'' [workspaceID, timeEntryID]
      in case delete w lg session ClockifyAPI path of (r, l) \<Rightarrow> (r, l0 @ l))"

text \<open>
  \<open>ContinueTimeEntry\<close>, lines 231-238: the request it builds. \<open>duronly\<close> is not read.
\<close>

definition ContinueTimeEntry_request :: "world \<Rightarrow> TimeEntry \<Rightarrow> TimeEntryRequest" where
  "ContinueTimeEntry_request w timer =
     zero_TimeEntryRequest
       \<lparr>TimeEntryRequest_Start := time_Now w,
        TimeEntryRequest_Pid := TimeEntry_Pid timer,
        TimeEntryRequest_Tid := TimeEntry_Tid timer,
        TimeEntryRequest_Description := TimeEntry_Description timer,
        TimeEntryRequest_Tags := TimeEntry_Tags timer,
        TimeEntryRequest_Billable := TimeEntry_Billable timer\<rparr>"

text \<open>\<open>ContinueTimeEntry\<close> (lines 227-245).\<close>

definition ContinueTimeEntry ::
  "world \<Rightarrow> Logger \<Rightarrow> Session \<Rightarrow> TimeEntry \<Rightarrow> bool \<Rightarrow> (TimeEntry \<times> error option) outcome logged"
where
  "ContinueTimeEntry w lg session timer duronly =
     (let l0 = Printf lg ''Continuing timer %v'' [LTimeEntry timer];
          timeEntryRequest = ContinueTimeEntry_request w timer;
          path = Sprintf w ''/workspaces/%s/time-entries'' [TimeEntry_Wid timer]
      in andThen
           (case post w lg session ClockifyAPI path (Some timeEntryRequest) of (r, l) \<Rightarrow> (r, l0 @ l))
           (\<lambda>r. case requestTimeEntry w lg r of (res, l) \<Rightarrow> (Return res, l)))"

text \<open>\<open>StopTimeEntry\<close>, line 251: the path.\<close>

definition StopTimeEntry_path :: "world \<Rightarrow> string \<Rightarrow> string \<Rightarrow> string" where
  "StopTimeEntry_path w workspaceID userID =
     Sprintf w ''/workspaces/{workspaceId}/user/{userId}/time-entries'' [workspaceID, userID]"

text \<open>\<open>StopTimeEntry\<close> (lines 249-254).\<close>

definition StopTimeEntry ::
  "world \<Rightarrow> Logger \<Rightarrow> Session \<Rightarrow> string \<Rightarrow> string \<Rightarrow> (TimeEntry \<times> error option) outcome logged"
where
  "StopTimeEntry w lg session workspaceID userID =
     (let l0 = Printf lg ''Stopping timer to user %s'' [LString userID];
          path = StopTimeEntry_path w workspaceID userID
      in andThen
           (case patch w lg session ClockifyAPI path
                   (Some (zero_TimeEntryRequest\<lparr>TimeEntryRequest_End := time_Now w\<rparr>)) of
              (r, l) \<Rightarrow> (r, l0 @ l))
           (\<lambda>r. case requestTimeEntry w lg r of (res, l) \<Rightarrow> (Return res, l)))"

text \<open>\<open>GetProjects\<close> (lines 285-296).\<close>

definition GetProjects ::
  "world \<Rightarrow> Logger \<Rightarrow> Session \<Rightarrow> string \<Rightarrow> (Project list \<times> error option) outcome logged"
where
  "GetProjects w lg session workspaceID =
     (let l0 = Printf lg ''Getting projects for workspace %s'' [LString workspaceID];
          path = Sprintf w ''/workspaces/%s/projects'' [workspaceID]
      in andThen
           (case get w lg session ClockifyAPI path None of (r, l) \<Rightarrow> (r, l0 @ l))
           (\<lambda>r. case r of
              (data, Some err) \<Rightarrow> (Return ([], Some err), [])
            | (data, None) \<Rightarrow>
                (case json_Unmarshal (decode_slice (decode_struct Project_fields) zero_Project) data [] of
                   (projects, err) \<Rightarrow>
                     (Return (projects, err),
                      Printf lg ''Unmarshaled '%s' into %#v\<newline>'' [LString data, LProjects projects]))))"

section \<open>Worlds for the examples\<close>

text \<open>
  A server that answers every request with the same response; marshalling succeeds,
  the clock shows one instant, no timestamp is accepted.
\<close>

definition server :: "Response \<Rightarrow> world" where
  "server resp =
     \<lparr>client_Do = (\<lambda>req. Inr resp),
      json_Marshal = (\<lambda>d. Inr ''{}''),
      time_Now = ''2024-01-01T00:00:00Z'',
      time_Parse = (\<lambda>s. False),
      fmt_verb = (\<lambda>format args. [])\<rparr>"

definition response :: "int \<Rightarrow> string \<Rightarrow> string \<Rightarrow> Response" where
  "response code status body =
     \<lparr>Response_Status = status, Response_StatusCode = code, Response_Body = Inr body\<rparr>"

section \<open>Properties\<close>

subsection \<open>Results of the helpers\<close>

lemma fst_andThen:
  "fst (andThen m f) = (case fst m of Panic \<Rightarrow> Panic | Return x \<Rightarrow> fst (f x))"
  by (cases m) (auto simp: andThen_def split: outcome.splits prod.splits)

lemma snd_andThen:
  "snd (andThen m f) = (case fst m of Panic \<Rightarrow> snd m | Return x \<Rightarrow> snd m @ snd (f x))"
  by (cases m) (auto simp: andThen_def split: outcome.splits prod.splits)

lemma fst_case_option:
  "fst (case x of None \<Rightarrow> a | Some y \<Rightarrow> f y) = (case x of None \<Rightarrow> fst a | Some y \<Rightarrow> fst (f y))"
  by (cases x) simp_all

lemma fst_prefix_log: "fst (case m of (r, l) \<Rightarrow> (r, l0 @ l)) = fst m"
  by (cases m) simp

lemma snd_prefix_log: "snd (case m of (r, l) \<Rightarrow> (r, l0 @ l)) = l0 @ snd m"
  by (cases m) simp

lemma fst_get:
  "fst (get w lg session requestURL path params)
     = request w session ''GET'' (get_requestURL requestURL path params) None"
  by (simp add: get_def Let_def)

lemma fst_delete:
  "fst (delete w lg session requestURL path) = request w session ''DELETE'' (requestURL @ path) None"
  by (simp add: delete_def Let_def)

lemma fst_post:
  "fst (post w lg session requestURL path data) =
     (case (case data of None \<Rightarrow> Inr [] | Some d \<Rightarrow> json_Marshal w d) of
        Inl err \<Rightarrow> Return ([], Some err)
      | Inr body \<Rightarrow> request w session ''POST'' (requestURL @ path) (Some body))"
  by (simp add: post_def Let_def split: sum.splits)

lemma fst_patch:
  "fst (patch w lg session requestURL path data) =
     (case (case data of None \<Rightarrow> Inr [] | Some d \<Rightarrow> json_Marshal w d) of
        Inl err \<Rightarrow> Return ([], Some err)
      | Inr body \<Rightarrow> request w session ''PATCH'' (requestURL @ path) (Some body))"
  by (simp add: patch_def Let_def split: sum.splits)

lemma fst_requestTimeEntry:
  "fst (requestTimeEntry w lg r) =
     (case r of
        (data, Some err) \<Rightarrow> (zero_TimeEntry, Some err)
      | (data, None) \<Rightarrow>
          (case json_Unmarshal (decode_struct (TimeEntry_fields w)) data zero_TimeEntry of
             (entry, err) \<Rightarrow> if err = None then (entry, None) else (zero_TimeEntry, err)))"
  by (simp add: requestTimeEntry_def split: prod.splits option.splits)

lemma snd_then_requestTimeEntry:
  "snd (case requestTimeEntry w lg r of (res, l) \<Rightarrow> (Return res, l)) = snd (requestTimeEntry w lg r)"
  by (simp split: prod.splits)

lemma snd_case_result:
  "snd (case r of (data, Some err) \<Rightarrow> A data err | (data, None) \<Rightarrow> B data)
     = (case r of (data, Some err) \<Rightarrow> snd (A data err) | (data, None) \<Rightarrow> snd (B data))"
  by (simp split: prod.splits option.splits)

lemma request_NewRequest_fails:
  "NewRequest method requestURL body = Inl e \<Longrightarrow> request w session method requestURL body = Panic"
  by (simp add: request_def)

lemma NewRequest_user:
  "NewRequest method (ClockifyAPI @ ''/user'') body
     = Inr \<lparr>Request_Method = method, Request_URL = ClockifyAPI @ ''/user'',
            Request_Header = (\<lambda>k. []), Request_Body = body\<rparr>"
  by (simp add: NewRequest_def ClockifyAPI_def stringContainsCTLByte_def Let_def)

subsection \<open>A value that is read is not empty\<close>

lemma scan_frac_length: "scan_frac s = Some (x, r) \<Longrightarrow> length r \<le> length s"
  by (auto simp: scan_frac_def length_dropWhile_le le_SucI split: list.splits if_splits)

lemma scan_exp_length: "scan_exp s = Some (x, r) \<Longrightarrow> length r \<le> length s"
proof (cases s)
  case Nil
  then show "scan_exp s = Some (x, r) \<Longrightarrow> length r \<le> length s"
    by (simp add: scan_exp_def)
next
  case (Cons c t)
  assume a: "scan_exp s = Some (x, r)"
  show "length r \<le> length s"
  proof (cases "c = CHR ''e'' \<or> c = CHR ''E''")
    case False
    with a Cons show ?thesis by (simp add: scan_exp_def)
  next
    case True
    with a Cons obtain n where "r = dropWhile isDigit (drop n t)"
      by (auto simp: scan_exp_def Let_def split: if_splits)
    moreover have "length (dropWhile isDigit (drop n t)) \<le> length (drop n t)"
      by (rule length_dropWhile_le)
    ultimately show ?thesis using Cons by simp
  qed
qed

lemma scan_number_length:
  assumes "scan_number s = Some (x, r)"
  shows "length r < length s"
proof -
  define sg where "sg = (case s of [] \<Rightarrow> [] | x # _ \<Rightarrow> if x = CHR ''-'' then [x] else [])"
  from assms obtain d s2 where s1: "drop (length sg) s = d # s2"
    by (auto simp: scan_number_def sg_def Let_def split: list.splits if_splits)
  define s3 where "s3 = (if d = CHR ''0'' then s2 else dropWhile isDigit s2)"
  from assms s1 obtain fp s4 ep where f: "scan_frac s3 = Some (fp, s4)" and e: "scan_exp s4 = Some (ep, r)"
    unfolding scan_number_def Let_def sg_def [symmetric] s3_def
    by (auto split: list.splits if_splits option.splits)
  have "length s3 \<le> length s2"
    by (simp add: s3_def length_dropWhile_le)
  moreover have "length s2 < length s"
    using s1 by (metis drop_all impossible_Cons length_Cons length_drop less_Suc_eq_le
        diff_le_self le_less_trans not_le list.distinct(1) nat_less_le)
  ultimately show ?thesis
    using scan_frac_length [OF f] scan_exp_length [OF e] by simp
qed

lemma take_literal: "take n s = l \<Longrightarrow> length l = n \<Longrightarrow> n \<le> length s"
  using length_take [of n s] by (simp add: min_def split: if_splits)

lemma scan_literal_length:
  assumes "scan_literal s = Some (v, r)"
  shows "length r < length s"
proof -
  from assms consider "take 4 s = ''true''" "r = drop 4 s" | "take 5 s = ''false''" "r = drop 5 s"
    | "take 4 s = ''null''" "r = drop 4 s"
    by (auto simp: scan_literal_def split: if_splits)
  then show ?thesis
  proof cases
    case 1
    from take_literal [OF 1(1)] 1(2) show ?thesis by simp
  next
    case 2
    from take_literal [OF 2(1)] 2(2) show ?thesis by simp
  next
    case 3
    from take_literal [OF 3(1)] 3(2) show ?thesis by simp
  qed
qed

lemma parse_lengths:
  "(\<forall>v r. parse_value s = Some (v, r) \<longrightarrow> length r < length s)"
  "(\<forall>v r. parse_array s acc = Some (v, r) \<longrightarrow> length r < length s)"
  "(\<forall>v r. parse_object s acc' = Some (v, r) \<longrightarrow> length r < length s)"
proof (induction s and s acc and s acc' rule: parse_value_parse_array_parse_object.induct)
  case (1 s)
  show ?case
  proof (intro allI impI)
    fix v r
    assume a: "parse_value s = Some (v, r)"
    then obtain c t where st: "skip_ws s = c # t"
      by (subst (asm) parse_value.simps) (auto split: list.splits)
    have lt: "length t < length s" using st by (rule skip_ws_Cons_length)
    consider (obj) "c = CHR ''{''" | (arr) "c \<noteq> CHR ''{''" "c = CHR ''[''"
      | (str) "c \<noteq> CHR ''{''" "c \<noteq> CHR ''[''" "c = CHR 0x22"
      | (num) "c \<noteq> CHR ''{''" "c \<noteq> CHR ''[''" "c \<noteq> CHR 0x22" "c = CHR ''-'' \<or> isDigit c"
      | (lit) "c \<noteq> CHR ''{''" "c \<noteq> CHR ''[''" "c \<noteq> CHR 0x22" "\<not> (c = CHR ''-'' \<or> isDigit c)"
      by blast
    then show "length r < length s"
    proof cases
      case obj
      from a st obj obtain c' t' where tt: "skip_ws t = c' # t'"
        by (subst (asm) parse_value.simps) (auto split: list.splits)
      show ?thesis
      proof (cases "c' = CHR ''}''")
        case True
        with a st obj tt have "r = t'"
          by (subst (asm) parse_value.simps) simp
        with skip_ws_Cons_length [OF tt] lt show ?thesis by simp
      next
        case False
        with a st obj tt have "parse_object t [] = Some (v, r)"
          by (subst (asm) parse_value.simps) simp
        with "1.IH"(1) [OF st obj tt False] lt show ?thesis by force
      qed
    next
      case arr
      from a st arr obtain c' t' where tt: "skip_ws t = c' # t'"
        by (subst (asm) parse_value.simps) (auto split: list.splits)
      show ?thesis
      proof (cases "c' = CHR '']''")
        case True
        with a st arr tt have "r = t'"
          by (subst (asm) parse_value.simps) simp
        with skip_ws_Cons_length [OF tt] lt show ?thesis by simp
      next
        case False
        with a st arr tt have "parse_array t [] = Some (v, r)"
          by (subst (asm) parse_value.simps) simp
        with "1.IH"(2) [OF st arr tt False] lt show ?thesis by force
      qed
    next
      case str
      with a st obtain raw where "scan_string t = Some (raw, r)"
        by (subst (asm) parse_value.simps) auto
      from scan_string_length [OF this] lt show ?thesis by simp
    next
      case num
      with a st obtain n where "scan_number (c # t) = Some (n, r)"
        by (subst (asm) parse_value.simps) auto
      from scan_number_length [OF this] lt show ?thesis by simp
    next
      case lit
      with a st have "scan_literal (c # t) = Some (v, r)"
        by (subst (asm) parse_value.simps) auto
      from scan_literal_length [OF this] lt show ?thesis by simp
    qed
  qed
next
  case (2 s acc)
  show ?case
  proof (intro allI impI)
    fix v r
    assume a: "parse_array s acc = Some (v, r)"
    then obtain x r1 where pv: "parse_value s = Some (x, r1)"
      by (subst (asm) parse_array.simps) (auto split: option.splits)
    with "2.IH"(1) have l1: "length r1 < length s" by blast
    from a pv obtain c r' where sk: "skip_ws r1 = c # r'"
      by (subst (asm) parse_array.simps) (auto split: list.splits)
    have l2: "length r' < length r1" using sk by (rule skip_ws_Cons_length)
    show "length r < length s"
    proof (cases "c = CHR '']''")
      case True
      with a pv sk have "r = r'" by (subst (asm) parse_array.simps) simp
      with l1 l2 show ?thesis by simp
    next
      case False
      with a pv sk have c: "c = CHR '',''" and g: "length r' < length s"
        and rec: "parse_array r' (acc @ [x]) = Some (v, r)"
        by (subst (asm) parse_array.simps; simp split: if_splits)+
      from "2.IH"(2) [OF pv refl sk False] c g rec have "length r < length r'" by blast
      with g show ?thesis by simp
    qed
  qed
next
  case (3 s acc)
  show ?case
  proof (intro allI impI)
    fix v r
    assume a: "parse_object s acc = Some (v, r)"
    then obtain q t where st: "skip_ws s = q # t"
      by (subst (asm) parse_object.simps) (auto split: list.splits)
    from a st have q: "q = CHR 0x22"
      by (subst (asm) parse_object.simps) (auto split: if_splits)
    from a st q obtain key r1 where ss: "scan_string t = Some (key, r1)"
      by (subst (asm) parse_object.simps) (auto split: option.splits)
    from a st q ss obtain c1 r2 where s1: "skip_ws r1 = c1 # r2"
      by (subst (asm) parse_object.simps) (auto split: list.splits)
    from a st q ss s1 have c1: "c1 = CHR '':''"
      by (subst (asm) parse_object.simps) (auto split: if_splits)
    from a st q ss s1 c1 obtain x r3 where pv: "parse_value r2 = Some (x, r3)"
      by (subst (asm) parse_object.simps) (auto split: option.splits)
    from a st q ss s1 c1 pv obtain c3 r4 where s3: "skip_ws r3 = c3 # r4"
      by (subst (asm) parse_object.simps) (auto split: list.splits)
    have nq: "\<not> q \<noteq> CHR 0x22" using q by simp
    have nc: "\<not> c1 \<noteq> CHR '':''" using c1 by simp
    from "3.IH"(1) [OF st nq ss refl s1 nc] pv have l3: "length r3 < length r2" by blast
    have "length r2 < length r1" using s1 by (rule skip_ws_Cons_length)
    moreover have "length r1 < length t" using ss by (rule scan_string_length)
    moreover have "length t < length s" using st by (rule skip_ws_Cons_length)
    moreover have "length r4 < length r3" using s3 by (rule skip_ws_Cons_length)
    ultimately have l4: "length r4 < length s" using l3 by simp
    show "length r < length s"
    proof (cases "c3 = CHR ''}''")
      case True
      with a st q ss s1 c1 pv s3 have "r = r4" by (subst (asm) parse_object.simps) simp
      with l4 show ?thesis by simp
    next
      case False
      with a st q ss s1 c1 pv s3 have c: "c3 = CHR '',''"
        and rec: "parse_object r4 (acc @ [(unquote key, x)]) = Some (v, r)"
        by (subst (asm) parse_object.simps; simp split: if_splits)+
      from "3.IH"(2) [OF st nq ss refl s1 nc pv refl s3 False] c l4 rec
      have "length r < length r4" by blast
      with l4 show ?thesis by simp
    qed
  qed
qed

lemma parse_value_length: "parse_value s = Some (v, r) \<Longrightarrow> length r < length s"
  using parse_lengths(1) by blast

text \<open>So the tests on the lengths in \<open>parse_array\<close> and \<open>parse_object\<close> never fail.\<close>

lemma parse_array_unguarded:
  "parse_array s acc =
     (case parse_value s of
        None \<Rightarrow> None
      | Some (v, r) \<Rightarrow>
          (case skip_ws r of
             [] \<Rightarrow> None
           | c # r' \<Rightarrow>
               if c = CHR '']'' then Some (JArray (acc @ [v]), r')
               else if c = CHR '','' then parse_array r' (acc @ [v])
               else None))"
proof (cases "parse_value s")
  case None
  then show ?thesis by (subst parse_array.simps) simp
next
  case (Some p)
  obtain v r where p: "p = (v, r)" by (cases p)
  have "length r' < length s" if "skip_ws r = c # r'" for c r'
    using parse_value_length [OF Some [unfolded p]] skip_ws_Cons_length [OF that] by simp
  then show ?thesis
    by (subst parse_array.simps) (simp add: Some p split: list.splits)
qed

lemma parse_object_unguarded:
  "parse_object s acc =
     (case skip_ws s of
        [] \<Rightarrow> None
      | q # r \<Rightarrow>
          if q \<noteq> CHR 0x22 then None
          else
            (case scan_string r of
               None \<Rightarrow> None
             | Some (key, r1) \<Rightarrow>
                 (case skip_ws r1 of
                    [] \<Rightarrow> None
                  | c1 # r2 \<Rightarrow>
                      if c1 \<noteq> CHR '':'' then None
                      else
                        (case parse_value r2 of
                           None \<Rightarrow> None
                         | Some (v, r3) \<Rightarrow>
                             (case skip_ws r3 of
                                [] \<Rightarrow> None
                              | c3 # r4 \<Rightarrow>
                                  if c3 = CHR ''}'' then Some (JObject (acc @ [(unquote key, v)]), r4)
                                  else if c3 = CHR '','' then parse_object r4 (acc @ [(unquote key, v)])
                                  else None)))))"
proof -
  have "length r4 < length s"
    if "skip_ws s = q # r" "scan_string r = Some (key, r1)" "skip_ws r1 = c1 # r2"
      "parse_value r2 = Some (v, r3)" "skip_ws r3 = c3 # r4" for q r key r1 c1 r2 v r3 c3 r4
    using skip_ws_Cons_length [OF that(1)] scan_string_length [OF that(2)]
      skip_ws_Cons_length [OF that(3)] parse_value_length [OF that(4)]
      skip_ws_Cons_length [OF that(5)]
    by simp
  then show ?thesis
    by (subst parse_object.simps) (simp split: list.splits option.splits)
qed

subsection \<open>The path of \<open>StopTimeEntry\<close>\<close>

text \<open>
  The format of \<open>StopTimeEntry\<close> has no verb: the placeholders stay in the path as
  they are written, and \<open>fmt.Sprintf\<close> appends the two operands it was given and did
  not use.
\<close>

lemma StopTimeEntry_path_operands:
  "StopTimeEntry_path w workspaceID userID =
     ''/workspaces/{workspaceId}/user/{userId}/time-entries''
     @ ''%!(EXTRA string='' @ workspaceID @ '', string='' @ userID @ '')''"
  by (simp add: StopTimeEntry_path_def fmt_EXTRA_def)

lemma StopTimeEntry_url_fails:
  "\<exists>e. NewRequest method (ClockifyAPI @ StopTimeEntry_path w workspaceID userID) body = Inl e"
  by (simp add: NewRequest_def StopTimeEntry_path_def fmt_EXTRA_def ClockifyAPI_def Let_def ishex_def)

text \<open>
  The URL of \<open>StopTimeEntry\<close> always has the malformed escape \<open>%!(\<close>: once the payload
  is marshalled, every call panics on the nil request, and no request reaches
  \<open>client.Do\<close>.
\<close>

lemma StopTimeEntry_panics:
  assumes "json_Marshal w (zero_TimeEntryRequest\<lparr>TimeEntryRequest_End := time_Now w\<rparr>) = Inr body"
  shows "fst (StopTimeEntry w lg session workspaceID userID) = Panic"
proof -
  obtain e where
    "NewRequest ''PATCH'' (ClockifyAPI @ StopTimeEntry_path w workspaceID userID) (Some body) = Inl e"
    using StopTimeEntry_url_fails by blast
  then have "request w session ''PATCH'' (ClockifyAPI @ StopTimeEntry_path w workspaceID userID)
      (Some body) = Panic"
    by (rule request_NewRequest_fails)
  with assms show ?thesis
    by (simp add: StopTimeEntry_def fst_andThen fst_prefix_log patch_def Let_def)
qed

text \<open>
  Claim C1 fails on the code. \<open>StopTimeEntry\<close> passes the workspace id and the user id
  to \<open>fmt.Sprintf\<close> with a format that has no verb for them, where \<open>StartTimeEntry\<close>,
  \<open>GetTimeEntry\<close> and \<open>GetProjects\<close> write \<open>%s\<close>. For the workspace \<open>ws1\<close> and the
  user \<open>user1\<close> the path is the template followed by
  \<open>%!(EXTRA string=ws1, string=user1)\<close>, not the template; the URL then has the
  malformed escape \<open>%!(\<close>, \<open>http.NewRequest\<close> gives no request, and the call panics on
  the nil request: no PATCH is issued.
\<close>

theorem StopTimeEntry_sends_no_PATCH:
  "StopTimeEntry_path w ''ws1'' ''user1''
     = ''/workspaces/{workspaceId}/user/{userId}/time-entries%!(EXTRA string=ws1, string=user1)''
   \<and> StopTimeEntry_path w ''ws1'' ''user1'' \<noteq> ''/workspaces/{workspaceId}/user/{userId}/time-entries''
   \<and> fst (StopTimeEntry (server (response 200 ''200 OK'' ''{}'')) lg session ''ws1'' ''user1'') = Panic"
proof -
  have "json_Marshal (server (response 200 ''200 OK'' ''{}''))
          (zero_TimeEntryRequest\<lparr>TimeEntryRequest_End := time_Now (server (response 200 ''200 OK'' ''{}''))\<rparr>)
        = Inr ''{}''"
    by (simp add: server_def)
  then have "fst (StopTimeEntry (server (response 200 ''200 OK'' ''{}'')) lg session ''ws1'' ''user1'') = Panic"
    by (rule StopTimeEntry_panics)
  then show ?thesis
    by (simp add: StopTimeEntry_path_operands)
qed

subsection \<open>Responses outside \<open>[200, 400)\<close>\<close>

lemma Sprintf_plain: "CHR ''%'' \<notin> set format \<Longrightarrow> Sprintf w format [] = format"
  by (induction format) (auto simp: fmt_EXTRA_def)

text \<open>
  For a status text without a percent sign the error of \<open>request\<close> carries the status
  text, next to the body that was read; \<open>requestTimeEntry\<close> hands an error on without
  decoding and without logging.
\<close>

lemma roundTrip_status_error:
  assumes "client_Do w req = Inr resp" and "Response_Body resp = Inr content"
    and "Response_StatusCode resp < 200 \<or> 400 \<le> Response_StatusCode resp"
    and "CHR ''%'' \<notin> set (Response_Status resp)"
  shows "roundTrip w req = (content, Some (ErrorString (Response_Status resp)))"
  using assms by (auto simp: roundTrip_def Errorf_def Sprintf_plain)

lemma requestTimeEntry_error:
  "requestTimeEntry w lg (data, Some err) = ((zero_TimeEntry, Some err), [])"
  by (simp add: requestTimeEntry_def)

text \<open>
  Claim C2 fails on the code where the status text has a percent sign. The status text
  is the format string of \<open>fmt.Errorf\<close>: for the response \<open>HTTP/1.1 404 %\<close> with the
  body \<open>gone\<close> the message of the error is \<open>404 %!(NOVERB)\<close>, not the status text
  \<open>404 %\<close>. The body is returned with the error, and \<open>GetAccount\<close> returns the error
  without decoding.
\<close>

theorem request_status_format:
  "request (server (response 404 ''404 %'' ''gone'')) session ''GET'' (ClockifyAPI @ ''/user'') None
     = Return (''gone'', Some (ErrorString ''404 %!(NOVERB)''))
   \<and> fst (GetAccount (server (response 404 ''404 %'' ''gone'')) lg session)
     = Return (zero_Account, Some (ErrorString ''404 %!(NOVERB)''))"
proof -
  have r: "request (server (response 404 ''404 %'' ''gone'')) session ''GET'' (ClockifyAPI @ ''/user'') None
     = Return (''gone'', Some (ErrorString ''404 %!(NOVERB)''))"
    by (simp add: request_def NewRequest_user roundTrip_def server_def response_def Errorf_def
          fmt_EXTRA_def)
  then show ?thesis
    by (simp add: GetAccount_def fst_andThen fst_get get_requestURL_def)
qed

subsection \<open>The request of \<open>ContinueTimeEntry\<close>\<close>

text \<open>
  The request that \<open>ContinueTimeEntry\<close> builds has the project id, the task id, the
  description, the tag ids and the billable flag of the entry, the current UTC time in
  RFC 3339 as its start and an empty end.
\<close>

lemma ContinueTimeEntry_request_fields:
  "ContinueTimeEntry_request w timer =
       \<lparr>TimeEntryRequest_Start = time_Now w,
        TimeEntryRequest_Pid = TimeEntry_Pid timer,
        TimeEntryRequest_Tid = TimeEntry_Tid timer,
        TimeEntryRequest_Description = TimeEntry_Description timer,
        TimeEntryRequest_End = [],
        TimeEntryRequest_Tags = TimeEntry_Tags timer,
        TimeEntryRequest_Billable = TimeEntry_Billable timer\<rparr>"
  by (simp add: ContinueTimeEntry_request_def zero_TimeEntryRequest_def)

text \<open>
  Where the request is marshalled and \<open>http.NewRequest\<close> gives a request for the URL,
  that request goes to \<open>client.Do\<close> with the method POST, the URL
  \<open>/workspaces/\<close>wid\<open>/time-entries\<close> under \<open>ClockifyAPI\<close> and the marshalled request as
  its body, and what comes back is decoded.
\<close>

lemma ContinueTimeEntry_posts:
  assumes "json_Marshal w (ContinueTimeEntry_request w timer) = Inr body"
    and "NewRequest ''POST'' (ClockifyAPI @ ''/workspaces/'' @ TimeEntry_Wid timer @ ''/time-entries'')
           (Some body) = Inr req"
  shows "fst (ContinueTimeEntry w lg session timer duronly)
           = Return (fst (requestTimeEntry w lg (roundTrip w (setHeaders session req))))"
    and "Request_Method (setHeaders session req) = ''POST''"
    and "Request_URL (setHeaders session req)
           = ClockifyAPI @ ''/workspaces/'' @ TimeEntry_Wid timer @ ''/time-entries''"
    and "Request_Body (setHeaders session req) = Some body"
proof -
  have "request w session ''POST'' (ClockifyAPI @ ''/workspaces/'' @ TimeEntry_Wid timer @ ''/time-entries'')
          (Some body) = Return (roundTrip w (setHeaders session req))"
    using assms(2) by (simp add: request_def)
  with assms(1) show "fst (ContinueTimeEntry w lg session timer duronly)
           = Return (fst (requestTimeEntry w lg (roundTrip w (setHeaders session req))))"
    by (simp add: ContinueTimeEntry_def fst_andThen fst_prefix_log fst_post fmt_EXTRA_def
          Let_def split: prod.splits)
  show "Request_Method (setHeaders session req) = ''POST''"
    and "Request_URL (setHeaders session req)
           = ClockifyAPI @ ''/workspaces/'' @ TimeEntry_Wid timer @ ''/time-entries''"
    and "Request_Body (setHeaders session req) = Some body"
    using assms(2)
    by (auto simp: setHeaders_def Header_Add_def NewRequest_def Let_def split: if_splits)
qed

lemma ContinueTimeEntry_url_fails:
  "\<exists>e. NewRequest method (ClockifyAPI @ ''/workspaces/%/time-entries'') body = Inl e"
  by (simp add: NewRequest_def ClockifyAPI_def Let_def ishex_def stringContainsCTLByte_def)

text \<open>
  Claim C3 fails on the code for an entry whose workspace id gives no URL. For an
  entry with the workspace id \<open>%\<close> the URL \<open>/workspaces/%/time-entries\<close> has a
  malformed percent escape, \<open>http.NewRequest\<close> gives no request, and \<open>request\<close> reads
  \<open>req.Header\<close> of the nil request: \<open>ContinueTimeEntry\<close> panics and nothing is POSTed,
  whatever the other fields of the entry, the session and the logger.
\<close>

theorem ContinueTimeEntry_panics:
  "fst (ContinueTimeEntry (server (response 200 ''200 OK'' ''{}'')) lg session
          (timer\<lparr>TimeEntry_Wid := ''%''\<rparr>) duronly) = Panic"
proof -
  obtain e where "NewRequest ''POST'' (ClockifyAPI @ ''/workspaces/%/time-entries'') (Some ''{}'') = Inl e"
    using ContinueTimeEntry_url_fails by blast
  then have "request (server (response 200 ''200 OK'' ''{}'')) session ''POST''
               (ClockifyAPI @ ''/workspaces/%/time-entries'') (Some ''{}'') = Panic"
    by (rule request_NewRequest_fails)
  then show ?thesis
    by (simp add: ContinueTimeEntry_def fst_andThen fst_prefix_log fst_post fmt_EXTRA_def
          Let_def server_def)
qed

subsection \<open>The headers\<close>

text \<open>
  Claim C4. When \<open>http.NewRequest\<close> gives a request, the request that \<open>request\<close>
  hands to \<open>client.Do\<close> has the method, the URL and the body it was given, the header
  \<open>Content-Type: application/json\<close>, and the header \<open>X-Api-Key\<close> with the token of the
  session if the token is not empty and no such header if it is.
\<close>

theorem request_headers:
  assumes "NewRequest method requestURL body = Inr req"
  shows "request w session method requestURL body = Return (roundTrip w (setHeaders session req))
    \<and> Request_Header (setHeaders session req) ''Content-Type'' = [''application/json'']
    \<and> Request_Header (setHeaders session req) ''X-Api-Key''
        = (if APIToken session = [] then [] else [APIToken session])
    \<and> Request_Method (setHeaders session req) = method
    \<and> Request_URL (setHeaders session req) = requestURL
    \<and> Request_Body (setHeaders session req) = body"
  using assms
  by (auto simp: request_def setHeaders_def Header_Add_def NewRequest_def Let_def split: if_splits)

theorem request_headers_witness:
  "NewRequest ''GET'' (ClockifyAPI @ ''/user'') None
     = Inr \<lparr>Request_Method = ''GET'', Request_URL = ClockifyAPI @ ''/user'',
            Request_Header = (\<lambda>k. []), Request_Body = None\<rparr>
   \<and> Request_Header (setHeaders (OpenSession ''key'')
         \<lparr>Request_Method = ''GET'', Request_URL = ClockifyAPI @ ''/user'',
          Request_Header = (\<lambda>k. []), Request_Body = None\<rparr>) ''X-Api-Key'' = [''key'']
   \<and> Request_Header (setHeaders (OpenSession [])
         \<lparr>Request_Method = ''GET'', Request_URL = ClockifyAPI @ ''/user'',
          Request_Header = (\<lambda>k. []), Request_Body = None\<rparr>) ''X-Api-Key'' = []
   \<and> Request_Header (setHeaders (OpenSession [])
         \<lparr>Request_Method = ''GET'', Request_URL = ClockifyAPI @ ''/user'',
          Request_Header = (\<lambda>k. []), Request_Body = None\<rparr>) ''Content-Type'' = [''application/json'']"
  using request_headers [OF NewRequest_user, where session = "OpenSession ''key''"]
    request_headers [OF NewRequest_user, where session = "OpenSession []"]
  by (simp add: NewRequest_user OpenSession_def)

subsection \<open>The query string of \<open>get\<close>\<close>

lemma Values_Set_new:
  "key \<notin> fst ` set data \<Longrightarrow> Values_Set data key val = data @ [(key, [val])]"
  by (induction data) auto

text \<open>The \<open>range\<close> loop over a map, whose keys are distinct, adds one entry for each key.\<close>

lemma range_loop_distinct:
  "distinct (map fst kvs) \<Longrightarrow> fst ` set data \<inter> fst ` set kvs = {} \<Longrightarrow>
   foldl (\<lambda>data (key, val). Values_Set data key val) data kvs
     = data @ map (\<lambda>(key, val). (key, [val])) kvs"
proof (induction kvs arbitrary: data)
  case Nil
  then show ?case by simp
next
  case (Cons kv kvs)
  obtain k v where kv: "kv = (k, v)" by (cases kv)
  from Cons.prems have new: "k \<notin> fst ` set data" by (auto simp: kv)
  from Cons.prems have d: "distinct (map fst kvs)"
    and disj: "fst ` set (data @ [(k, [v])]) \<inter> fst ` set kvs = {}"
    by (auto simp: kv)
  show ?case
    using Cons.IH [OF d disj] by (simp add: kv Values_Set_new [OF new])
qed

lemma map_of_singletons:
  "map_of (map (\<lambda>(key, val). (key, [val])) kvs) k = map_option (\<lambda>v. [v]) (map_of kvs k)"
  by (induction kvs) auto

lemma fst_singletons: "fst \<circ> (\<lambda>(key, val). (key, [val])) = fst"
  by (simp add: fun_eq_iff)

lemma keys_sort_key: "map fst (sort_key fst kvs) = sort (map fst kvs)"
proof -
  have "sort (map fst kvs) = map fst (sort_key fst kvs)"
    by (rule properties_for_sort) simp_all
  then show ?thesis by simp
qed

lemma Values_Encode_singletons:
  assumes "distinct (map fst kvs)"
  shows "Values_Encode (map (\<lambda>(key, val). (key, [val])) kvs)
           = join ''&'' (map (\<lambda>(key, val). QueryEscape key @ ''='' @ QueryEscape val)
                          (sort_key fst kvs))"
proof -
  let ?data = "map (\<lambda>(key, val). (key, [val])) kvs"
  have each: "map (\<lambda>v. QueryEscape a @ CHR ''='' # QueryEscape v) (Values_Get ?data a)
                = [QueryEscape a @ CHR ''='' # QueryEscape b]" if "(a, b) \<in> set kvs" for a b
  proof -
    from that assms have "map_of kvs a = Some b"
      by (simp add: map_of_eq_Some_iff)
    then show ?thesis
      by (simp add: Values_Get_def map_of_singletons)
  qed
  have "concat (map (\<lambda>k. map (\<lambda>v. QueryEscape k @ ''='' @ QueryEscape v) (Values_Get ?data k))
                 (map fst ps))
          = map (\<lambda>(key, val). QueryEscape key @ ''='' @ QueryEscape val) ps"
    if "set ps \<subseteq> set kvs" for ps
    using that by (induction ps) (auto simp: each)
  then have "concat (map (\<lambda>k. map (\<lambda>v. QueryEscape k @ ''='' @ QueryEscape v) (Values_Get ?data k))
                 (map fst (sort_key fst kvs)))
          = map (\<lambda>(key, val). QueryEscape key @ ''='' @ QueryEscape val) (sort_key fst kvs)"
    by simp
  then show ?thesis
    by (simp add: Values_Encode_def fst_singletons keys_sort_key)
qed

lemma get_requestURL_sorted:
  assumes "distinct (map fst kvs)"
  shows "get_requestURL requestURL path (Some kvs)
           = requestURL @ path @ ''?''
             @ join ''&'' (map (\<lambda>(key, val). QueryEscape key @ ''='' @ QueryEscape val)
                             (sort_key fst kvs))"
  using assms range_loop_distinct [of kvs "[]"]
  by (simp add: get_requestURL_def Values_Encode_singletons)

text \<open>
  Claim C5. For a map, given by its entries with their distinct keys in any order, the
  URL of \<open>get\<close> is the base URL, the path, a question mark and the entries of the map,
  each exactly once, written \<open>key=value\<close> with key and value escaped and \<open>&\<close> between
  them; for the nil map it is the base URL and the path. This URL is the one of the GET
  request.
\<close>

theorem get_requestURL_query:
  assumes "distinct (map fst kvs)"
  shows "get_requestURL requestURL path (Some kvs)
           = requestURL @ path @ ''?''
             @ join ''&'' (map (\<lambda>(key, val). QueryEscape key @ ''='' @ QueryEscape val)
                             (sort_key fst kvs))
         \<and> mset (sort_key fst kvs) = mset kvs
         \<and> get_requestURL requestURL path None = requestURL @ path
         \<and> fst (get w lg session requestURL path params)
             = request w session ''GET'' (get_requestURL requestURL path params) None"
  using get_requestURL_sorted [OF assms] by (simp add: get_requestURL_def fst_get)

theorem get_requestURL_query_witness:
  "distinct (map fst [(''b k'', ''1''), (''a'', ''x/y'')])
   \<and> get_requestURL ''https://h'' ''/p'' (Some [(''b k'', ''1''), (''a'', ''x/y'')])
       = ''https://h/p?a=x%2Fy&b+k=1''
   \<and> get_requestURL ''https://h'' ''/p'' None = ''https://h/p''"
  using get_requestURL_query [of "[(''b k'', ''1''), (''a'', ''x/y'')]" "''https://h''" "''/p''"]
  by (simp add: QueryEscape_def escape_byte_def unreserved_def upperhex_def)

subsection \<open>Bodies that are not JSON\<close>

lemma parse_trailing: "parse_value ''{}x'' = Some (JObject [], ''x'')"
  by (simp add: parse_value.simps skip_ws_def isSpace_def)

lemma not_valid_trailing: "\<not> checkValid ''{}x''"
  by (simp add: checkValid_def parse_trailing skip_ws_def isSpace_def)

text \<open>
  \<open>requestTimeEntry\<close> and \<open>GetProjects\<close> decode with \<open>json.Unmarshal\<close>: a body that is
  not one JSON text gives a syntax error and the zero entry.
\<close>

lemma requestTimeEntry_invalid:
  "\<not> checkValid data \<Longrightarrow> requestTimeEntry w lg (data, None)
     = ((zero_TimeEntry, Some SyntaxError),
        Printf lg ''Unmarshaled '%s' into %#v\<newline>'' [LString data, LTimeEntry zero_TimeEntry])"
  by (simp add: requestTimeEntry_def json_Unmarshal_def)

text \<open>
  Claim C6 fails on the code for \<open>GetAccount\<close>. \<open>decodeAccount\<close> decodes with a
  \<open>json.Decoder\<close>, which reads the first value of the body and not what follows it:
  for the response \<open>200 OK\<close> with the body \<open>{}x\<close>, which is not a JSON text,
  \<open>GetAccount\<close> returns the zero account and no error. \<open>requestTimeEntry\<close> returns a
  syntax error for the same body.
\<close>

theorem GetAccount_trailing_bytes:
  "fst (GetAccount (server (response 200 ''200 OK'' ''{}x'')) lg session) = Return (zero_Account, None)
   \<and> \<not> checkValid ''{}x''
   \<and> fst (requestTimeEntry w lg (''{}x'', None)) = (zero_TimeEntry, Some SyntaxError)"
proof -
  have r: "request (server (response 200 ''200 OK'' ''{}x'')) session ''GET'' (ClockifyAPI @ ''/user'') None
     = Return (''{}x'', None)"
    by (simp add: request_def NewRequest_user roundTrip_def server_def response_def)
  have d: "decodeAccount w' ''{}x'' zero_Account = (zero_Account, None)" for w'
    by (simp add: decodeAccount_def Decoder_Decode_def parse_trailing decode_struct_def unmarshal_def)
  have t: "fst (requestTimeEntry w lg (''{}x'', None)) = (zero_TimeEntry, Some SyntaxError)"
    by (simp add: requestTimeEntry_invalid [OF not_valid_trailing])
  show ?thesis
    using not_valid_trailing t
    by (simp add: GetAccount_def fst_andThen fst_get get_requestURL_def r d)
qed

subsection \<open>The nil request\<close>

lemma GetProjects_url_fails:
  "\<exists>e. NewRequest method (ClockifyAPI @ ''/workspaces/%/projects'') body = Inl e"
  by (simp add: NewRequest_def ClockifyAPI_def Let_def ishex_def stringContainsCTLByte_def)

text \<open>
  Claim C7 fails on the code. \<open>request\<close> does not look at the error of
  \<open>http.NewRequest\<close> and reads \<open>req.Header\<close> of the nil request: for the workspace id
  \<open>%\<close> the URL of \<open>GetProjects\<close> has a malformed percent escape and the call panics,
  whatever the session, the logger and the server.
\<close>

theorem GetProjects_panics: "fst (GetProjects w lg session ''%'') = Panic"
proof -
  obtain e where "NewRequest ''GET'' (ClockifyAPI @ ''/workspaces/%/projects'') None = Inl e"
    using GetProjects_url_fails by blast
  then have "request w session ''GET'' (ClockifyAPI @ ''/workspaces/%/projects'') None = Panic"
    by (rule request_NewRequest_fails)
  then show ?thesis
    by (simp add: GetProjects_def fst_andThen fst_get fst_prefix_log get_requestURL_def
          fmt_EXTRA_def Let_def)
qed

subsection \<open>The log toggle\<close>

lemma Printf_DisableLog: "Printf (DisableLog lg) format args = []"
  by (simp add: Printf_def DisableLog_def)

lemma Printf_EnableLog: "Printf (EnableLog lg) format args = [(Logger_flags lg, format, args)]"
  by (simp add: Printf_def EnableLog_def)

lemma quiet_requestTimeEntry: "snd (requestTimeEntry w (DisableLog lg) r) = []"
  by (simp add: requestTimeEntry_def Printf_DisableLog split: prod.splits option.splits)

lemma quiet_get: "snd (get w (DisableLog lg) session requestURL path params) = []"
  by (simp add: get_def Printf_DisableLog Let_def)

lemma quiet_post: "snd (post w (DisableLog lg) session requestURL path data) = []"
  by (simp add: post_def Printf_DisableLog Let_def split: sum.splits)

lemma quiet_patch: "snd (patch w (DisableLog lg) session requestURL path data) = []"
  by (simp add: patch_def Printf_DisableLog Let_def split: sum.splits)

lemma quiet_delete: "snd (delete w (DisableLog lg) session requestURL path) = []"
  by (simp add: delete_def Printf_DisableLog Let_def)

lemma quiet_StopTimeEntry: "snd (StopTimeEntry w (DisableLog lg) session workspaceID userID) = []"
  by (simp add: StopTimeEntry_def snd_andThen snd_prefix_log fst_prefix_log quiet_patch
        snd_then_requestTimeEntry quiet_requestTimeEntry Printf_DisableLog Let_def split: outcome.splits)


lemma quiet_GetAccount: "snd (GetAccount w (DisableLog lg) session) = []"
  by (simp add: GetAccount_def snd_andThen quiet_get split: outcome.splits prod.splits option.splits)

lemma quiet_StartTimeEntry:
  "snd (StartTimeEntry w (DisableLog lg) session workspaceID timeEntryRequest) = []"
  by (simp add: StartTimeEntry_def snd_andThen quiet_post snd_then_requestTimeEntry
        quiet_requestTimeEntry Let_def split: outcome.splits)

lemma quiet_GetTimeEntry: "snd (GetTimeEntry w (DisableLog lg) session workspaceID timeEntryID) = []"
  by (simp add: GetTimeEntry_def snd_andThen quiet_get snd_case_result snd_then_requestTimeEntry
        quiet_requestTimeEntry Let_def split: outcome.splits prod.splits option.splits)

lemma quiet_DeleteTimeEntry: "snd (DeleteTimeEntry w (DisableLog lg) session workspaceID timeEntryID) = []"
  by (simp add: DeleteTimeEntry_def snd_prefix_log quiet_delete Printf_DisableLog Let_def)

lemma quiet_ContinueTimeEntry: "snd (ContinueTimeEntry w (DisableLog lg) session timer duronly) = []"
  by (simp add: ContinueTimeEntry_def snd_andThen snd_prefix_log fst_prefix_log quiet_post
        snd_then_requestTimeEntry quiet_requestTimeEntry Printf_DisableLog Let_def split: outcome.splits)

lemma quiet_GetProjects: "snd (GetProjects w (DisableLog lg) session workspaceID) = []"
  by (simp add: GetProjects_def snd_andThen snd_prefix_log fst_prefix_log quiet_get
        Printf_DisableLog Let_def split: outcome.splits prod.splits option.splits)

text \<open>
  Claim C8. What an operation returns does not depend on the state of the logger: for
  any two states, in particular after \<open>EnableLog\<close> and after \<open>DisableLog\<close>, every
  operation returns the same result and the same error, or panics in both. After
  \<open>EnableLog\<close> a diagnostic line is written to standard error; after \<open>DisableLog\<close> no
  operation writes any.
\<close>

theorem log_toggle_keeps_results:
  "fst (GetAccount w lg session) = fst (GetAccount w lg' session)
   \<and> fst (StartTimeEntry w lg session workspaceID timeEntryRequest)
       = fst (StartTimeEntry w lg' session workspaceID timeEntryRequest)
   \<and> fst (GetTimeEntry w lg session workspaceID timeEntryID)
       = fst (GetTimeEntry w lg' session workspaceID timeEntryID)
   \<and> fst (DeleteTimeEntry w lg session workspaceID timeEntryID)
       = fst (DeleteTimeEntry w lg' session workspaceID timeEntryID)
   \<and> fst (ContinueTimeEntry w lg session timer duronly)
       = fst (ContinueTimeEntry w lg' session timer duronly)
   \<and> fst (StopTimeEntry w lg session workspaceID userID)
       = fst (StopTimeEntry w lg' session workspaceID userID)
   \<and> fst (GetProjects w lg session workspaceID) = fst (GetProjects w lg' session workspaceID)
   \<and> Printf (EnableLog lg) format args = [(Logger_flags lg, format, args)]
   \<and> Printf (DisableLog lg) format args = []
   \<and> snd (GetAccount w (DisableLog lg) session) = []
   \<and> snd (StartTimeEntry w (DisableLog lg) session workspaceID timeEntryRequest) = []
   \<and> snd (GetTimeEntry w (DisableLog lg) session workspaceID timeEntryID) = []
   \<and> snd (DeleteTimeEntry w (DisableLog lg) session workspaceID timeEntryID) = []
   \<and> snd (ContinueTimeEntry w (DisableLog lg) session timer duronly) = []
   \<and> snd (StopTimeEntry w (DisableLog lg) session workspaceID userID) = []
   \<and> snd (GetProjects w (DisableLog lg) session workspaceID) = []"
proof -
  note fsts = fst_andThen fst_get fst_post fst_patch fst_delete fst_case_option
    fst_requestTimeEntry split_beta Let_def
  have 1: "fst (GetAccount w lg session) = fst (GetAccount w lg' session)"
    by (simp add: GetAccount_def fsts)
  have 2: "fst (StartTimeEntry w lg session workspaceID timeEntryRequest)
       = fst (StartTimeEntry w lg' session workspaceID timeEntryRequest)"
    by (simp add: StartTimeEntry_def fsts cong: outcome.case_cong prod.case_cong option.case_cong)
  have 3: "fst (GetTimeEntry w lg session workspaceID timeEntryID)
       = fst (GetTimeEntry w lg' session workspaceID timeEntryID)"
    by (simp add: GetTimeEntry_def fsts cong: outcome.case_cong prod.case_cong option.case_cong)
  have 4: "fst (DeleteTimeEntry w lg session workspaceID timeEntryID)
       = fst (DeleteTimeEntry w lg' session workspaceID timeEntryID)"
    by (simp add: DeleteTimeEntry_def fsts)
  have 5: "fst (ContinueTimeEntry w lg session timer duronly)
       = fst (ContinueTimeEntry w lg' session timer duronly)"
    by (simp add: ContinueTimeEntry_def fsts cong: outcome.case_cong prod.case_cong option.case_cong)
  have 6: "fst (StopTimeEntry w lg session workspaceID userID)
       = fst (StopTimeEntry w lg' session workspaceID userID)"
    by (simp add: StopTimeEntry_def fsts cong: outcome.case_cong prod.case_cong option.case_cong)
  have 7: "fst (GetProjects w lg session workspaceID) = fst (GetProjects w lg' session workspaceID)"
    by (simp add: GetProjects_def fsts cong: outcome.case_cong prod.case_cong option.case_cong)
  show ?thesis
    by (simp only: 1 2 3 4 5 6 7 Printf_EnableLog Printf_DisableLog
        quiet_GetAccount quiet_StartTimeEntry quiet_GetTimeEntry quiet_DeleteTimeEntry
        quiet_ContinueTimeEntry quiet_StopTimeEntry quiet_GetProjects simp_thms)
qed

subsection \<open>The \<open>archived\<close> member of a project\<close>

lemma find_field_Some:
  assumes "find_field flds key = Some st"
  shows "\<exists>tag. (tag, st) \<in> set flds \<and> foldName tag = foldName key"
proof (cases "map_of flds key")
  case None
  with assms obtain p where p: "find (\<lambda>(tag, f). foldName tag = foldName key) flds = Some p" "snd p = st"
    by (auto simp: find_field_def)
  from p(1) obtain i where "i < length flds" "flds ! i = p"
    and f: "case p of (tag, f) \<Rightarrow> foldName tag = foldName key"
    by (auto simp: find_Some_iff)
  then have "p \<in> set flds" by (metis nth_mem)
  with p(2) f show ?thesis by (cases p) auto
next
  case (Some f)
  with assms have "(key, st) \<in> set flds"
    by (auto simp: find_field_def dest: map_of_SomeD)
  then show ?thesis by blast
qed

lemma find_field_None:
  assumes "find_field flds key = None" and "(tag, st) \<in> set flds"
  shows "foldName tag \<noteq> foldName key"
proof -
  from assms(1) have "find (\<lambda>(tag, f). foldName tag = foldName key) flds = None"
    by (auto simp: find_field_def split: option.splits)
  with assms(2) show ?thesis
    by (auto simp: find_None_iff)
qed

lemma store_string_soft: "\<exists>x s'. store_string j v saved = (x, None, s')"
  by (cases j) (simp_all add: store_string_def mismatch_def)

lemma store_bool_soft:
  "\<exists>s'. store_bool j v saved = (case j of JBool b \<Rightarrow> b | _ \<Rightarrow> v, None, s')"
  by (cases j) (simp_all add: store_bool_def mismatch_def)

lemma Project_tags_fold:
  "foldName ''workspaceId'' = ''workspaceid''" "foldName ''id'' = ''id''"
  "foldName ''name'' = ''name''" "foldName ''archived'' = ''archived''"
  "foldName ''billable'' = ''billable''"
  by (simp_all add: toLower_def)

lemma Project_field_step:
  assumes "(tag, st) \<in> set Project_fields"
  shows "\<exists>p' saved'. st j p saved = (p', None, saved')
    \<and> Project_Active p' =
        (case j of JBool b \<Rightarrow> if foldName tag = ''archived'' then b else Project_Active p
                 | _ \<Rightarrow> Project_Active p)"
proof -
  from assms consider
      "tag = ''workspaceId''" "st = struct_field Project_Wid Project_Wid_update store_string"
    | "tag = ''id''" "st = struct_field Project_ID Project_ID_update store_string"
    | "tag = ''name''" "st = struct_field Project_Name Project_Name_update store_string"
    | "tag = ''archived''" "st = struct_field Project_Active Project_Active_update store_bool"
    | "tag = ''billable''" "st = struct_field Project_Billable Project_Billable_update store_bool"
    by (auto simp: Project_fields_def)
  then show ?thesis
  proof cases
    case 1
    obtain x s' where "store_string j (Project_Wid p) saved = (x, None, s')"
      using store_string_soft by blast
    with 1 show ?thesis
      by (simp add: struct_field_def toLower_def split: json.splits)
  next
    case 2
    obtain x s' where "store_string j (Project_ID p) saved = (x, None, s')"
      using store_string_soft by blast
    with 2 show ?thesis
      by (simp add: struct_field_def toLower_def split: json.splits)
  next
    case 3
    obtain x s' where "store_string j (Project_Name p) saved = (x, None, s')"
      using store_string_soft by blast
    with 3 show ?thesis
      by (simp add: struct_field_def toLower_def split: json.splits)
  next
    case 4
    obtain s' where "store_bool j (Project_Active p) saved
        = (case j of JBool b \<Rightarrow> b | _ \<Rightarrow> Project_Active p, None, s')"
      using store_bool_soft by blast
    with 4 show ?thesis
      by (simp add: struct_field_def toLower_def split: json.splits)
  next
    case 5
    obtain s' where "store_bool j (Project_Billable p) saved
        = (case j of JBool b \<Rightarrow> b | _ \<Rightarrow> Project_Billable p, None, s')"
      using store_bool_soft by blast
    with 5 show ?thesis
      by (simp add: struct_field_def toLower_def split: json.splits)
  qed
qed

lemma Project_member:
  "\<exists>p' saved'. (case find_field Project_fields key of
        None \<Rightarrow> (p, None, saved)
      | Some st \<Rightarrow> st j p saved) = (p', None, saved')
    \<and> Project_Active p' =
        (case j of JBool b \<Rightarrow> if foldName key = ''archived'' then b else Project_Active p
                 | _ \<Rightarrow> Project_Active p)"
proof (cases "find_field Project_fields key")
  case None
  have "(''archived'', struct_field Project_Active Project_Active_update store_bool) \<in> set Project_fields"
    by (simp add: Project_fields_def)
  from find_field_None [OF None this] have "foldName key \<noteq> ''archived''"
    by (simp add: toLower_def)
  with None show ?thesis by (simp split: json.splits)
next
  case (Some st)
  from find_field_Some [OF Some] obtain tag where
    tag: "(tag, st) \<in> set Project_fields" "foldName tag = foldName key" by blast
  from Project_field_step [OF tag(1), of j p saved] obtain p' saved' where
    step: "st j p saved = (p', None, saved')"
    and "Project_Active p' =
        (case j of JBool b \<Rightarrow> if foldName tag = ''archived'' then b else Project_Active p
                 | _ \<Rightarrow> Project_Active p)"
    by blast
  then have act: "Project_Active p' =
        (case j of JBool b \<Rightarrow> if foldName key = ''archived'' then b else Project_Active p
                 | _ \<Rightarrow> Project_Active p)"
    by (simp only: tag(2))
  from Some step have "(case find_field Project_fields key of
        None \<Rightarrow> (p, None, saved) | Some st \<Rightarrow> st j p saved) = (p', None, saved')"
    by simp
  with act show ?thesis by blast
qed

text \<open>
  Claim C9. Decoding a JSON object into a \<open>Project\<close> sets \<open>Active\<close> from the members
  whose key is \<open>archived\<close>, in any letter case, and whose value is a boolean, the last
  one last; no other member changes it, a member \<open>active\<close> included. \<open>IsActive\<close>
  returns the field.
\<close>

theorem Project_Active_from_archived:
  "IsActive (fst (decode_struct Project_fields (JObject kvs) p saved)) =
     foldl (\<lambda>a (key, j). case j of JBool b \<Rightarrow> if foldName key = ''archived'' then b else a | _ \<Rightarrow> a)
       (Project_Active p) kvs
   \<and> foldName ''active'' \<noteq> ''archived''
   \<and> IsActive p = Project_Active p"
proof -
  have "Project_Active (fst (decode_members Project_fields kvs p saved)) =
     foldl (\<lambda>a (key, j). case j of JBool b \<Rightarrow> if foldName key = ''archived'' then b else a | _ \<Rightarrow> a)
       (Project_Active p) kvs"
  proof (induction kvs arbitrary: p saved)
    case Nil
    then show ?case by simp
  next
    case (Cons kv kvs)
    obtain key j where kv: "kv = (key, j)" by (cases kv)
    obtain p' saved' where
      step: "(case find_field Project_fields key of None \<Rightarrow> (p, None, saved) | Some st \<Rightarrow> st j p saved)
               = (p', None, saved')"
      and act: "Project_Active p' =
          (case j of JBool b \<Rightarrow> if foldName key = ''archived'' then b else Project_Active p
                   | _ \<Rightarrow> Project_Active p)"
      using Project_member by blast
    have "decode_members Project_fields (kv # kvs) p saved = decode_members Project_fields kvs p' saved'"
      using step by (auto simp: kv split: option.splits)
    then show ?case
      using Cons.IH [of p' saved'] act by (simp add: kv)
  qed
  then show ?thesis
    by (simp add: IsActive_def decode_struct_def toLower_def)
qed

text \<open>
  The projects that \<open>GetProjects\<close> returns for the body
  \<open>[{"archived":true,"active":false}]\<close>: one project, and it is active.
\<close>

lemma GetProjects_archived_example:
  "fst (GetProjects (server (response 200 ''200 OK''
     (''[{'' @ [CHR 0x22] @ ''archived'' @ [CHR 0x22] @ '':true,'' @ [CHR 0x22] @ ''active''
        @ [CHR 0x22] @ '':false}]''))) dlog (OpenSession ''key'') ''w1'')
   = Return ([zero_Project\<lparr>Project_Active := True\<rparr>], None)"
  by code_simp

subsection \<open>The order of the query string\<close>

text \<open>
  Claim C10. The query string lists the entries of the map in the order of their
  keys, so the URL of \<open>get\<close> does not depend on the order in which the \<open>range\<close> loop
  visits the map: two lists of the same entries, with distinct keys, give the same URL.
\<close>

theorem get_requestURL_deterministic:
  assumes "distinct (map fst kvs)" and "mset kvs' = mset kvs"
  shows "get_requestURL requestURL path (Some kvs') = get_requestURL requestURL path (Some kvs)
         \<and> get_requestURL requestURL path (Some kvs)
             = requestURL @ path @ ''?''
               @ join ''&'' (map (\<lambda>(key, val). QueryEscape key @ ''='' @ QueryEscape val)
                               (sort_key fst kvs))
         \<and> sorted (map fst (sort_key fst kvs))"
proof -
  have "mset (map fst kvs') = mset (map fst kvs)"
    using assms(2) by (metis mset_map)
  with assms(1) have d': "distinct (map fst kvs')"
    by (metis mset_eq_imp_distinct_iff)
  have s: "set kvs' = set kvs"
    using assms(2) by (metis set_mset_mset)
  have "inj_on fst (set kvs)"
    using assms(1) by (simp add: distinct_map)
  then have "sort_key fst kvs' = sort_key fst kvs"
    using assms(1) d' s
    by (intro map_sorted_distinct_set_unique [where f = fst]) (simp_all add: keys_sort_key)
  then show ?thesis
    using get_requestURL_sorted [OF assms(1)] get_requestURL_sorted [OF d'] by simp
qed

theorem get_requestURL_deterministic_witness:
  "distinct (map fst [(''b'', ''1''), (''a'', ''2'')])
   \<and> mset [(''a'', ''2''), (''b'', ''1'')] = mset [(''b'', ''1''), (''a'', ''2'')]
   \<and> get_requestURL ''https://h'' ''/p'' (Some [(''a'', ''2''), (''b'', ''1'')]) = ''https://h/p?a=2&b=1''
   \<and> get_requestURL ''https://h'' ''/p'' (Some [(''b'', ''1''), (''a'', ''2'')]) = ''https://h/p?a=2&b=1''"
  using get_requestURL_deterministic [of "[(''b'', ''1''), (''a'', ''2'')]" "[(''a'', ''2''), (''b'', ''1'')]"
      "''https://h''" "''/p''"]
  by (simp add: add_mset_commute QueryEscape_def escape_byte_def unreserved_def)

end
